theory Spec2Isabelle
  imports Complex_Main "HOL-Library.Word" "HOL-Library.Sublist"
begin

unbundle bit_operations_syntax

section \<open>The JPEG XL adapter of codec-compare-gen (src/codec\_jpegxl.cc, src/timer.h)\<close>

text \<open>
  The adapter is a thin layer over two native libraries (libjxl and libwebp2) and the
  C++ runtime.  None of the three is part of the repository, so their behaviour is a
  parameter of the embedding: a record \<open>'w native\<close> of state transformers over an
  abstract world \<open>'w\<close> (the encoder and decoder objects, the allocator, the clock).
  The adapter's own code (the order of the calls, their arguments, the checks between
  them, the buffer loop) is translated statement by statement.
\<close>

subsection \<open>C integer types and decimal printing\<close>

type_synonym byte = "8 word"
type_synonym uint32 = "32 word"
type_synonym size_t = "64 word"

text \<open>\<open>std::to_string\<close> and \<open>operator<<\<close> on an unsigned or an enum value print decimals.\<close>

fun to_string :: "nat \<Rightarrow> string" where
  "to_string n =
     (if n < 10 then [''0123456789'' ! n]
      else to_string (n div 10) @ [''0123456789'' ! (n mod 10)])"

declare to_string.simps [simp del]

definition int_to_string :: "int \<Rightarrow> string" where
  "int_to_string i = (if i < 0 then ''-'' @ to_string (nat (- i)) else to_string (nat i))"

subsection \<open>libwebp2: pixel formats, buffers, status codes\<close>

text \<open>
  The sample formats of libwebp2 (wp2/base.h) and the four format queries the adapter
  calls.  Only \<open>WP2_RGBA_32\<close> and \<open>WP2_RGB_24\<close> get past the format check of
  \<open>EncodeJxl\<close>, and \<open>DecodeJxl\<close> creates no other.
\<close>

datatype WP2SampleFormat =
    WP2_Argb_32 | WP2_ARGB_32 | WP2_XRGB_32
  | WP2_rgbA_32 | WP2_RGBA_32 | WP2_RGBX_32
  | WP2_bgrA_32 | WP2_BGRA_32 | WP2_BGRX_32
  | WP2_RGB_24 | WP2_BGR_24
  | WP2_Argb_38

fun WP2FormatBpp :: "WP2SampleFormat \<Rightarrow> uint32" where
  "WP2FormatBpp WP2_RGB_24 = 3"
| "WP2FormatBpp WP2_BGR_24 = 3"
| "WP2FormatBpp WP2_Argb_38 = 8"
| "WP2FormatBpp _ = 4"

fun WP2Formatbpc :: "WP2SampleFormat \<Rightarrow> uint32" where
  "WP2Formatbpc WP2_Argb_38 = 10"
| "WP2Formatbpc _ = 8"

fun WP2FormatHasAlpha :: "WP2SampleFormat \<Rightarrow> bool" where
  "WP2FormatHasAlpha WP2_XRGB_32 = False"
| "WP2FormatHasAlpha WP2_RGBX_32 = False"
| "WP2FormatHasAlpha WP2_BGRX_32 = False"
| "WP2FormatHasAlpha WP2_RGB_24 = False"
| "WP2FormatHasAlpha WP2_BGR_24 = False"
| "WP2FormatHasAlpha _ = True"

fun WP2IsPremultiplied :: "WP2SampleFormat \<Rightarrow> bool" where
  "WP2IsPremultiplied WP2_Argb_32 = True"
| "WP2IsPremultiplied WP2_rgbA_32 = True"
| "WP2IsPremultiplied WP2_bgrA_32 = True"
| "WP2IsPremultiplied WP2_Argb_38 = True"
| "WP2IsPremultiplied _ = False"

datatype WP2Status =
    WP2_STATUS_OK
  | WP2_STATUS_OUT_OF_MEMORY
  | WP2_STATUS_INVALID_PARAMETER
  | WP2_STATUS_BAD_DIMENSION

text \<open>
  \<open>WP2::Data\<close>: a byte buffer; its \<open>size\<close> field is the length of \<open>bytes\<close>.
  \<open>WP2::ArgbBuffer\<close>: format, dimensions and row pitch, with \<open>pixels\<close> the memory that
  \<open>GetRow(0)\<close> points to.  A buffer constructed from a format alone is empty.
\<close>

record Data =
  bytes :: "byte list"

definition data_size :: "Data \<Rightarrow> nat" where
  "data_size data = length (bytes data)"

record ArgbBuffer =
  format :: WP2SampleFormat
  width :: uint32
  height :: uint32
  stride :: uint32
  pixels :: "byte list"

definition ArgbBuffer_of_format :: "WP2SampleFormat \<Rightarrow> ArgbBuffer" where
  "ArgbBuffer_of_format f = \<lparr>format = f, width = 0, height = 0, stride = 0, pixels = []\<rparr>"

subsection \<open>libjxl: status codes and the structs the adapter fills\<close>

datatype JxlEncoderStatus = JXL_ENC_SUCCESS | JXL_ENC_ERROR | JXL_ENC_NEED_MORE_OUTPUT

datatype JxlDecoderStatus =
    JXL_DEC_SUCCESS | JXL_DEC_ERROR | JXL_DEC_NEED_MORE_INPUT
  | JXL_DEC_NEED_PREVIEW_OUT_BUFFER | JXL_DEC_NEED_IMAGE_OUT_BUFFER
  | JXL_DEC_JPEG_NEED_MORE_OUTPUT | JXL_DEC_BOX_NEED_MORE_OUTPUT
  | JXL_DEC_BASIC_INFO | JXL_DEC_COLOR_ENCODING | JXL_DEC_PREVIEW_IMAGE
  | JXL_DEC_FRAME | JXL_DEC_FULL_IMAGE | JXL_DEC_JPEG_RECONSTRUCTION
  | JXL_DEC_BOX | JXL_DEC_FRAME_PROGRESSION | JXL_DEC_BOX_COMPLETE

text \<open>The integer value of a decoder status: what \<open><< status\<close> prints and what
  \<open>JxlDecoderSubscribeEvents\<close> takes as a bit mask.\<close>

fun JxlDecoderStatus_value :: "JxlDecoderStatus \<Rightarrow> nat" where
  "JxlDecoderStatus_value JXL_DEC_SUCCESS = 0"
| "JxlDecoderStatus_value JXL_DEC_ERROR = 1"
| "JxlDecoderStatus_value JXL_DEC_NEED_MORE_INPUT = 2"
| "JxlDecoderStatus_value JXL_DEC_NEED_PREVIEW_OUT_BUFFER = 3"
| "JxlDecoderStatus_value JXL_DEC_NEED_IMAGE_OUT_BUFFER = 5"
| "JxlDecoderStatus_value JXL_DEC_JPEG_NEED_MORE_OUTPUT = 6"
| "JxlDecoderStatus_value JXL_DEC_BOX_NEED_MORE_OUTPUT = 7"
| "JxlDecoderStatus_value JXL_DEC_BASIC_INFO = 64"
| "JxlDecoderStatus_value JXL_DEC_COLOR_ENCODING = 256"
| "JxlDecoderStatus_value JXL_DEC_PREVIEW_IMAGE = 512"
| "JxlDecoderStatus_value JXL_DEC_FRAME = 1024"
| "JxlDecoderStatus_value JXL_DEC_FULL_IMAGE = 4096"
| "JxlDecoderStatus_value JXL_DEC_JPEG_RECONSTRUCTION = 8192"
| "JxlDecoderStatus_value JXL_DEC_BOX = 16384"
| "JxlDecoderStatus_value JXL_DEC_FRAME_PROGRESSION = 32768"
| "JxlDecoderStatus_value JXL_DEC_BOX_COMPLETE = 65536"

datatype JxlDataType = JXL_TYPE_FLOAT | JXL_TYPE_UINT8 | JXL_TYPE_UINT16 | JXL_TYPE_FLOAT16

datatype JxlEndianness = JXL_NATIVE_ENDIAN | JXL_LITTLE_ENDIAN | JXL_BIG_ENDIAN

record JxlPixelFormat =
  num_channels :: uint32
  data_type :: JxlDataType
  endianness :: JxlEndianness
  align :: size_t

text \<open>Of \<open>JxlBasicInfo\<close>, the fields the adapter writes (encoding) or reads (decoding);
  it leaves every other field as \<open>JxlEncoderInitBasicInfo\<close> set it.\<close>

record JxlBasicInfo =
  xsize :: uint32
  ysize :: uint32
  bits_per_sample :: uint32
  uses_original_profile :: bool
  num_color_channels :: uint32
  num_extra_channels :: uint32
  alpha_bits :: uint32
  alpha_premultiplied :: bool

datatype JxlRenderingIntent =
    JXL_RENDERING_INTENT_PERCEPTUAL | JXL_RENDERING_INTENT_RELATIVE
  | JXL_RENDERING_INTENT_SATURATION | JXL_RENDERING_INTENT_ABSOLUTE

text \<open>A \<open>JxlColorEncoding\<close> as the adapter builds it: what
  \<open>JxlColorEncodingSetToSRGB\<close> sets for the given \<open>is_gray\<close>, with the rendering intent
  overwritten afterwards.\<close>

record JxlColorEncoding =
  srgb_is_gray :: bool
  rendering_intent :: JxlRenderingIntent

datatype JxlEncoderFrameSettingId =
    JXL_ENC_FRAME_SETTING_EFFORT
  | JXL_ENC_FRAME_SETTING_DECODING_SPEED
  | JXL_ENC_FRAME_SETTING_RESAMPLING

subsection \<open>The native environment\<close>

text \<open>
  Every native function the adapter calls, as a function of the world.  The encoder, the
  frame settings and the decoder are objects of the world; a creation function returns
  whether the handle is non-null.  \<open>JxlEncoderProcessOutput\<close> is given the space
  available and returns the bytes it wrote (it advances \<open>next_out\<close> by their number);
  \<open>JxlDecoderProcessInput\<close> returns the bytes it wrote into the bound output buffer.
  \<open>Data_Resize\<close> and \<open>ArgbBuffer_Resize\<close> are the two libwebp2 methods, given the object
  and returning it resized; \<open>high_resolution_clock_now\<close> reads the clock in seconds;
  \<open>ostream_double\<close> is how the C++ runtime prints a \<open>double\<close>.
\<close>

record 'w native =
  JxlEncoderVersion :: uint32
  JxlEncoderMake :: "'w \<Rightarrow> bool \<times> 'w"
  JxlEncoderInitBasicInfo :: JxlBasicInfo
  JxlEncoderSetBasicInfo :: "JxlBasicInfo \<Rightarrow> 'w \<Rightarrow> JxlEncoderStatus \<times> 'w"
  JxlEncoderGetError :: "'w \<Rightarrow> nat"
  JxlEncoderSetColorEncoding :: "JxlColorEncoding \<Rightarrow> 'w \<Rightarrow> JxlEncoderStatus \<times> 'w"
  JxlEncoderFrameSettingsCreate :: "'w \<Rightarrow> bool \<times> 'w"
  JxlEncoderSetFrameLossless :: "bool \<Rightarrow> 'w \<Rightarrow> JxlEncoderStatus \<times> 'w"
  JxlEncoderDistanceFromQuality :: "real \<Rightarrow> real"
  JxlEncoderSetFrameDistance :: "real \<Rightarrow> 'w \<Rightarrow> JxlEncoderStatus \<times> 'w"
  JxlEncoderFrameSettingsSetOption ::
    "JxlEncoderFrameSettingId \<Rightarrow> int \<Rightarrow> 'w \<Rightarrow> JxlEncoderStatus \<times> 'w"
  JxlEncoderAddImageFrame ::
    "JxlPixelFormat \<Rightarrow> byte list \<Rightarrow> size_t \<Rightarrow> 'w \<Rightarrow> JxlEncoderStatus \<times> 'w"
  JxlEncoderCloseInput :: "'w \<Rightarrow> 'w"
  JxlEncoderProcessOutput :: "nat \<Rightarrow> 'w \<Rightarrow> (JxlEncoderStatus \<times> byte list) \<times> 'w"
  JxlDecoderMake :: "'w \<Rightarrow> bool \<times> 'w"
  JxlDecoderSubscribeEvents :: "nat \<Rightarrow> 'w \<Rightarrow> JxlDecoderStatus \<times> 'w"
  JxlDecoderSetInput :: "byte list \<Rightarrow> nat \<Rightarrow> 'w \<Rightarrow> JxlDecoderStatus \<times> 'w"
  JxlDecoderCloseInput :: "'w \<Rightarrow> 'w"
  JxlDecoderProcessInput :: "'w \<Rightarrow> (JxlDecoderStatus \<times> byte list) \<times> 'w"
  JxlDecoderGetBasicInfo :: "'w \<Rightarrow> (JxlDecoderStatus \<times> JxlBasicInfo) \<times> 'w"
  JxlDecoderSetImageOutBuffer ::
    "JxlPixelFormat \<Rightarrow> byte list \<Rightarrow> size_t \<Rightarrow> 'w \<Rightarrow> JxlDecoderStatus \<times> 'w"
  Data_Resize :: "Data \<Rightarrow> nat \<Rightarrow> bool \<Rightarrow> 'w \<Rightarrow> (WP2Status \<times> Data) \<times> 'w"
  ArgbBuffer_Resize :: "ArgbBuffer \<Rightarrow> uint32 \<Rightarrow> uint32 \<Rightarrow> 'w \<Rightarrow> (WP2Status \<times> ArgbBuffer) \<times> 'w"
  high_resolution_clock_now :: "'w \<Rightarrow> real \<times> 'w"
  ostream_double :: "real \<Rightarrow> string"

text \<open>Memory written through a pointer into a buffer: \<open>chunk\<close> replaces the bytes from
  \<open>offset\<close> on; the buffer keeps its length.\<close>

definition write_at :: "byte list \<Rightarrow> nat \<Rightarrow> byte list \<Rightarrow> byte list" where
  "write_at buffer offset chunk =
     take (length buffer) (take offset buffer @ chunk @ drop (offset + length chunk) buffer)"

subsection \<open>Task descriptor, result type and check primitive (src/task.h, src/base.h)\<close>

text \<open>Modelled from the spec: the task descriptor of src/task.h, which is not among the
  sources.  "Codec settings: a quality value (either a lossless sentinel or a lossy level)
  and an effort/speed level"; "Task descriptor: references an image path/identifier (for
  diagnostics only) plus codec settings".\<close>

record CodecSettings =
  effort :: int
  quality :: int

record TaskInput =
  codec_settings :: CodecSettings
  image_path :: string

text \<open>Modelled from the spec: the lossless sentinel \<open>kQualityLossless\<close>, declared outside
  the sources.  The comment at \<open>JpegXLLossyQualities\<close> reads "[0:99] because 100 is
  lossless".\<close>

definition kQualityLossless :: int where
  "kQualityLossless = 100"

text \<open>Modelled from the spec: \<open>StatusOr\<close> and the macro \<open>CHECK_OR_RETURN\<close> of src/base.h,
  which is not among the sources.  "Result value: either a success payload of type T or a
  failure record (message, no payload)"; "the check primitive accepts a quiet flag: when
  true, no diagnostic is written to any side channel, the failure is still returned, just
  silently; when false, the diagnostic is also emitted to a side channel before being
  returned".  A call of the adapter yields its result, the diagnostics it emitted on the
  side channel, and the world it leaves.\<close>

type_synonym 'a StatusOr = "string + 'a"

type_synonym ('a, 'w) outcome = "'a StatusOr \<times> string list \<times> 'w"

definition check_failed :: "bool \<Rightarrow> string \<Rightarrow> 'w \<Rightarrow> ('a, 'w) outcome" where
  "check_failed quiet diagnostic w = (Inl diagnostic, (if quiet then [] else [diagnostic]), w)"

subsection \<open>JpegXLVersion and JpegXLLossyQualities\<close>

text \<open>The two preprocessor flags of the file.\<close>

record build_flags =
  HAS_WEBP2 :: bool
  HAS_JPEGXL :: bool

definition JpegXLVersion :: "build_flags \<Rightarrow> 'w native \<Rightarrow> string" where
  "JpegXLVersion flags api =
     (if HAS_JPEGXL flags then
        to_string (unat (JxlEncoderVersion api div 1000000)) @ ''.'' @
        to_string (unat (JxlEncoderVersion api mod 1000000 div 1000)) @ ''.'' @
        to_string (unat (JxlEncoderVersion api mod 1000))
      else ''n/a'')"

text \<open>\<open>std::vector<int> qualities(100)\<close> filled by \<open>std::iota\<close> from 0.\<close>

definition JpegXLLossyQualities :: "int list" where
  "JpegXLLossyQualities = map (\<lambda>i. 0 + int i) [0..<100]"

subsection \<open>ArgbBufferToJxlPixelFormat and ArgbBufferSize\<close>

definition ArgbBufferToJxlPixelFormat :: "ArgbBuffer \<Rightarrow> JxlPixelFormat" where
  "ArgbBufferToJxlPixelFormat img =
     (let bytes_per_channel = (WP2Formatbpc (format img) + 7) div 8 in
      \<lparr>num_channels = WP2FormatBpp (format img) div bytes_per_channel,
       data_type = (if WP2Formatbpc (format img) = 8 then JXL_TYPE_UINT8 else JXL_TYPE_UINT16),
       endianness = JXL_NATIVE_ENDIAN,
       align = ucast (stride img)\<rparr>)"

text \<open>\<open>height() - 1\<close> is computed in 32 bits and wraps for an img of no rows; the
  products and the sum are computed in \<open>size_t\<close> (64 bits).\<close>

definition ArgbBufferSize :: "ArgbBuffer \<Rightarrow> size_t" where
  "ArgbBufferSize img =
     ucast (height img - 1) * ucast (stride img) +
     ucast (width img) * ucast (WP2FormatBpp (format img))"

subsection \<open>EncodeJxl (built with HAS\_WEBP2 and HAS\_JPEGXL)\<close>

text \<open>Lines 98 to 114: the basic info submitted to the encoder.\<close>

definition EncodeJxl_basic_info :: "'w native \<Rightarrow> TaskInput \<Rightarrow> ArgbBuffer \<Rightarrow> JxlBasicInfo" where
  "EncodeJxl_basic_info api input original_image =
     (let basic_info = (JxlEncoderInitBasicInfo api)
            \<lparr>xsize := width original_image,
             ysize := height original_image,
             bits_per_sample := WP2Formatbpc (format original_image),
             uses_original_profile := (quality (codec_settings input) = kQualityLossless),
             num_color_channels := 3\<rparr>
      in if WP2FormatHasAlpha (format original_image) then
           basic_info
             \<lparr>num_extra_channels := (if WP2FormatHasAlpha (format original_image) then 1 else 0),
              alpha_bits := bits_per_sample basic_info,
              alpha_premultiplied := WP2IsPremultiplied (format original_image)\<rparr>
         else basic_info)"

text \<open>Lines 121 to 124: sRGB, not gray, with the perceptual rendering intent.\<close>

definition EncodeJxl_color_encoding :: JxlColorEncoding where
  "EncodeJxl_color_encoding =
     \<lparr>srgb_is_gray = False, rendering_intent = JXL_RENDERING_INTENT_PERCEPTUAL\<rparr>"

text \<open>
  Lines 180 to 190, the do-while loop.  \<open>next_out\<close> is kept as its offset from
  \<open>data.bytes\<close>, so \<open>avail_out\<close> is \<open>data.size - next_out\<close> at every call.  The loop
  leaves either through the failed check inside it (\<open>Inl\<close>, the outcome returned from
  \<open>EncodeJxl\<close>) or with a status other than need-more-output (\<open>Inr\<close>: the status, the
  buffer, the offset of \<open>next_out\<close> and the world).  It runs for as long as the encoder
  asks for more output and the buffer can be resized: \<open>None\<close> is the run that never ends.
  \<open>data.size * 2\<close> is a \<open>size_t\<close> product.
\<close>

partial_function (option) EncodeJxl_drain ::
  "'w native \<Rightarrow> bool \<Rightarrow> Data \<Rightarrow> nat \<Rightarrow> 'w \<Rightarrow>
     ((Data, 'w) outcome + JxlEncoderStatus \<times> Data \<times> nat \<times> 'w) option" where
  "EncodeJxl_drain api quiet data next_out w =
     (case JxlEncoderProcessOutput api (data_size data - next_out) w of
        ((status, written), w1) \<Rightarrow>
          (if status = JXL_ENC_NEED_MORE_OUTPUT then
             (case Data_Resize api (data\<lparr>bytes := write_at (bytes data) next_out written\<rparr>)
                     (data_size data * 2 mod 2 ^ 64) True w1 of
                ((resized, data2), w2) \<Rightarrow>
                  (if resized \<noteq> WP2_STATUS_OK then Some (Inl (check_failed quiet [] w2))
                   else EncodeJxl_drain api quiet data2 (next_out + length written) w2))
           else Some (Inr (status, data\<lparr>bytes := write_at (bytes data) next_out written\<rparr>,
                           next_out + length written, w1))))"

text \<open>Lines 154 to 198: from the effort option to the end, where the two branches on the
  quality meet again.\<close>

definition EncodeJxl_frame ::
  "'w native \<Rightarrow> TaskInput \<Rightarrow> ArgbBuffer \<Rightarrow> bool \<Rightarrow> 'w \<Rightarrow> (Data, 'w) outcome option" where
  "EncodeJxl_frame api input original_image quiet w5 =
     (case JxlEncoderFrameSettingsSetOption api JXL_ENC_FRAME_SETTING_EFFORT
             (effort (codec_settings input)) w5 of
        (status, w6) \<Rightarrow>
     if status \<noteq> JXL_ENC_SUCCESS then
       Some (check_failed quiet
         (''JxlEncoderFrameSettingsSetOption(/*effort=*/'' @
          int_to_string (effort (codec_settings input)) @ '') failed with error code '' @
          to_string (JxlEncoderGetError api w6) @ '' when encoding '' @ image_path input) w6)
     else
     case JxlEncoderAddImageFrame api (ArgbBufferToJxlPixelFormat original_image)
            (pixels original_image) (ArgbBufferSize original_image) w6 of
        (status, w7) \<Rightarrow>
     if status \<noteq> JXL_ENC_SUCCESS then
       Some (check_failed quiet
         (''JxlEncoderAddImageFrame() failed with error code '' @
          to_string (JxlEncoderGetError api w7) @ '' when encoding '' @ image_path input) w7)
     else
     case Data_Resize api \<lparr>bytes = []\<rparr> 64 False (JxlEncoderCloseInput api w7) of
        ((resized, data), w9) \<Rightarrow>
     if resized \<noteq> WP2_STATUS_OK then Some (check_failed quiet [] w9)
     else
     case EncodeJxl_drain api quiet data 0 w9 of
       None \<Rightarrow> None
     | Some (Inl returned) \<Rightarrow> Some returned
     | Some (Inr (status, data1, next_out, w10)) \<Rightarrow>
     case Data_Resize api data1 next_out True w10 of
        ((resized, data2), w11) \<Rightarrow>
     if resized \<noteq> WP2_STATUS_OK then Some (check_failed quiet [] w11)
     else if status \<noteq> JXL_ENC_SUCCESS then
       Some (check_failed quiet
         (''JxlEncoderProcessOutput() failed with error code '' @
          to_string (JxlEncoderGetError api w11) @ '' when encoding '' @ image_path input) w11)
     else Some (Inr data2, [], w11))"

text \<open>Lines 86 to 153, continued by \<open>EncodeJxl_frame\<close> from either branch.\<close>

definition EncodeJxl ::
  "'w native \<Rightarrow> TaskInput \<Rightarrow> ArgbBuffer \<Rightarrow> bool \<Rightarrow> 'w \<Rightarrow> (Data, 'w) outcome option" where
  "EncodeJxl api input original_image quiet w0 =
     (if \<not> (format original_image = WP2_RGBA_32 \<or> format original_image = WP2_RGB_24) then
        Some (check_failed quiet ''libjxl requires RGB(A)'' w0)
      else
      case JxlEncoderMake api w0 of
        (encoder, w1) \<Rightarrow>
      if \<not> encoder then Some (check_failed quiet ''JxlEncoderMake() failed'' w1)
      else
      case JxlEncoderSetBasicInfo api (EncodeJxl_basic_info api input original_image) w1 of
        (status, w2) \<Rightarrow>
      if status \<noteq> JXL_ENC_SUCCESS then
        Some (check_failed quiet
          (''JxlEncoderSetBasicInfo() failed with error code '' @
           to_string (JxlEncoderGetError api w2) @ '' when encoding '' @ image_path input) w2)
      else
      case JxlEncoderSetColorEncoding api EncodeJxl_color_encoding w2 of
        (status, w3) \<Rightarrow>
      if status \<noteq> JXL_ENC_SUCCESS then
        Some (check_failed quiet
          (''JxlEncoderSetColorEncoding() failed with error code '' @
           to_string (JxlEncoderGetError api w3) @ '' when encoding '' @ image_path input) w3)
      else
      case JxlEncoderFrameSettingsCreate api w3 of
        (frame_settings, w4) \<Rightarrow>
      if \<not> frame_settings then
        Some (check_failed quiet
          (''JxlEncoderFrameSettingsCreate() returned null when encoding '' @
           image_path input) w4)
      else if quality (codec_settings input) = kQualityLossless then
        (case JxlEncoderSetFrameLossless api True w4 of
           (status, w5) \<Rightarrow>
         if status \<noteq> JXL_ENC_SUCCESS then
           Some (check_failed quiet
             (''JxlEncoderSetFrameLossless() failed with error code '' @
              to_string (JxlEncoderGetError api w5) @ '' when encoding '' @
              image_path input) w5)
         else EncodeJxl_frame api input original_image quiet w5)
      else
        (let distance =
               JxlEncoderDistanceFromQuality api (real_of_int (quality (codec_settings input)))
         in case JxlEncoderSetFrameDistance api distance w4 of
           (status, w5) \<Rightarrow>
         if status \<noteq> JXL_ENC_SUCCESS then
           Some (check_failed quiet
             (''JxlEncoderSetFrameDistance() failed with error code '' @
              to_string (JxlEncoderGetError api w5) @ '' when encoding '' @
              image_path input @ '' with distance '' @ ostream_double api distance @
              '' (quality '' @ int_to_string (quality (codec_settings input)) @ '')'') w5)
         else EncodeJxl_frame api input original_image quiet w5))"

subsection \<open>Timer (src/timer.h)\<close>

text \<open>The constructor reads the clock into \<open>start\<close> (the member \<open>start_\<close>); \<open>seconds\<close> reads it again and
  returns the difference, leaving the timer as it is.\<close>

record Timer =
  start :: real

definition Timer_new :: "'w native \<Rightarrow> 'w \<Rightarrow> Timer \<times> 'w" where
  "Timer_new api w = (case high_resolution_clock_now api w of (t, w1) \<Rightarrow> (\<lparr>start = t\<rparr>, w1))"

definition seconds :: "'w native \<Rightarrow> Timer \<Rightarrow> 'w \<Rightarrow> real \<times> 'w" where
  "seconds api timer w =
     (case high_resolution_clock_now api w of (t, w1) \<Rightarrow> (t - start timer, w1))"

subsection \<open>DecodeJxl (built with HAS\_WEBP2 and HAS\_JPEGXL)\<close>

text \<open>Lines 235 to 261: from the allocation of the image to the end, given the basic
  info the decoder reported.\<close>

definition DecodeJxl_image ::
  "'w native \<Rightarrow> TaskInput \<Rightarrow> bool \<Rightarrow> JxlBasicInfo \<Rightarrow> 'w \<Rightarrow> (ArgbBuffer \<times> real, 'w) outcome" where
  "DecodeJxl_image api input quiet info w7 =
     (case ArgbBuffer_Resize api
             (ArgbBuffer_of_format (if 0 < alpha_bits info then WP2_RGBA_32 else WP2_RGB_24))
             (xsize info) (ysize info) w7 of
        ((resized, img), w8) \<Rightarrow>
      if resized \<noteq> WP2_STATUS_OK then check_failed quiet [] w8
      else
      case JxlDecoderSetImageOutBuffer api (ArgbBufferToJxlPixelFormat img) (pixels img)
             (ArgbBufferSize img) w8 of
        (status, w9) \<Rightarrow>
      if status \<noteq> JXL_DEC_SUCCESS then
        check_failed quiet
          (''JxlDecoderSetImageOutBuffer() failed with error code '' @
           to_string (JxlDecoderStatus_value status) @ '' when decoding '' @
           image_path input) w9
      else
      case JxlDecoderProcessInput api w9 of
        ((status, written), w10) \<Rightarrow>
      if status \<noteq> JXL_DEC_FULL_IMAGE then
        check_failed quiet
          (''Third call to JxlDecoderProcessInput() unexpectedly returned '' @
           to_string (JxlDecoderStatus_value status) @ '' when decoding '' @
           image_path input) w10
      else
      case Timer_new api w10 of
        (color_conversion_duration, w11) \<Rightarrow>
      case JxlDecoderProcessInput api w11 of
        ((status, written2), w12) \<Rightarrow>
      if status \<noteq> JXL_DEC_SUCCESS then
        check_failed quiet
          (''Third call to JxlDecoderProcessInput() failed with error code '' @
           to_string (JxlDecoderStatus_value status) @ '' when decoding '' @
           image_path input) w12
      else
      case seconds api color_conversion_duration w12 of
        (duration, w13) \<Rightarrow>
      (Inr (img\<lparr>pixels := write_at (write_at (pixels img) 0 written) 0 written2\<rparr>, duration),
       [], w13))"

text \<open>Lines 201 to 233, continued by \<open>DecodeJxl_image\<close>.\<close>

definition DecodeJxl ::
  "'w native \<Rightarrow> TaskInput \<Rightarrow> Data \<Rightarrow> bool \<Rightarrow> 'w \<Rightarrow> (ArgbBuffer \<times> real, 'w) outcome" where
  "DecodeJxl api input encoded_image quiet w0 =
     (case JxlDecoderMake api w0 of
        (decoder, w1) \<Rightarrow>
      if \<not> decoder then check_failed quiet ''JxlDecoderMake() failed'' w1
      else
      case JxlDecoderSubscribeEvents api
             (JxlDecoderStatus_value JXL_DEC_BASIC_INFO OR
              JxlDecoderStatus_value JXL_DEC_FULL_IMAGE) w1 of
        (status, w2) \<Rightarrow>
      if status \<noteq> JXL_DEC_SUCCESS then
        check_failed quiet
          (''JxlDecoderSubscribeEvents() failed with error code '' @
           to_string (JxlDecoderStatus_value status) @ '' when decoding '' @
           image_path input) w2
      else
      case JxlDecoderSetInput api (bytes encoded_image) (data_size encoded_image) w2 of
        (status, w3) \<Rightarrow>
      if status \<noteq> JXL_DEC_SUCCESS then
        check_failed quiet
          (''JxlDecoderSetInput() failed with error code '' @
           to_string (JxlDecoderStatus_value status) @ '' when decoding '' @
           image_path input) w3
      else
      case JxlDecoderProcessInput api (JxlDecoderCloseInput api w3) of
        ((status, unbound), w5) \<Rightarrow>
      if status \<noteq> JXL_DEC_BASIC_INFO then
        check_failed quiet
          (''First call to JxlDecoderProcessInput() unexpectedly returned '' @
           to_string (JxlDecoderStatus_value status) @ '' when decoding '' @
           image_path input) w5
      else
      case JxlDecoderGetBasicInfo api w5 of
        ((status, info), w6) \<Rightarrow>
      if status \<noteq> JXL_DEC_SUCCESS then
        check_failed quiet
          (''JxlDecoderGetBasicInfo() failed with error code '' @
           to_string (JxlDecoderStatus_value status) @ '' when decoding '' @
           image_path input) w6
      else
      case JxlDecoderProcessInput api w6 of
        ((status, unbound), w7) \<Rightarrow>
      if status \<noteq> JXL_DEC_NEED_IMAGE_OUT_BUFFER then
        check_failed quiet
          (''Second call to JxlDecoderProcessInput() unexpectedly returned '' @
           to_string (JxlDecoderStatus_value status) @ '' when decoding '' @
           image_path input) w7
      else DecodeJxl_image api input quiet info w7)"

subsection \<open>The functions as the preprocessor leaves them\<close>

text \<open>Lines 264 to 273: the two functions when \<open>HAS_WEBP2\<close> is defined and \<open>HAS_JPEGXL\<close>
  is not.\<close>

definition EncodeJxl_without_jpegxl :: "bool \<Rightarrow> 'w \<Rightarrow> (Data, 'w) outcome" where
  "EncodeJxl_without_jpegxl quiet w =
     (if \<not> False then check_failed quiet ''Encoding images requires HAS_JPEGXL'' w
      else undefined)"

definition DecodeJxl_without_jpegxl :: "bool \<Rightarrow> 'w \<Rightarrow> (ArgbBuffer \<times> real, 'w) outcome" where
  "DecodeJxl_without_jpegxl quiet w =
     (if \<not> False then check_failed quiet ''Decoding images requires HAS_JPEGXL'' w
      else undefined)"

text \<open>
  Both definitions of each function stand inside \<open>#if defined(HAS_WEBP2)\<close> (lines 61 to
  276): a build without \<open>HAS_WEBP2\<close> compiles neither.  \<open>Compiled\<close> holds what a call
  returns (\<open>None\<close> when it does not return).
\<close>

datatype 'a compiled = NotCompiled | Compiled 'a

definition EncodeJxl_as_built ::
  "build_flags \<Rightarrow> 'w native \<Rightarrow> TaskInput \<Rightarrow> ArgbBuffer \<Rightarrow> bool \<Rightarrow> 'w \<Rightarrow>
     (Data, 'w) outcome option compiled" where
  "EncodeJxl_as_built flags api input original_image quiet w =
     (if HAS_WEBP2 flags then
        (if HAS_JPEGXL flags then Compiled (EncodeJxl api input original_image quiet w)
         else Compiled (Some (EncodeJxl_without_jpegxl quiet w)))
      else NotCompiled)"

definition DecodeJxl_as_built ::
  "build_flags \<Rightarrow> 'w native \<Rightarrow> TaskInput \<Rightarrow> Data \<Rightarrow> bool \<Rightarrow> 'w \<Rightarrow>
     (ArgbBuffer \<times> real, 'w) outcome option compiled" where
  "DecodeJxl_as_built flags api input encoded_image quiet w =
     (if HAS_WEBP2 flags then
        (if HAS_JPEGXL flags then Compiled (Some (DecodeJxl api input encoded_image quiet w))
         else Compiled (Some (DecodeJxl_without_jpegxl quiet w)))
      else NotCompiled)"

subsection \<open>Observing the native calls\<close>

text \<open>
  What the adapter does to the libraries is the sequence of its native calls.  To state
  which calls a run makes, with which arguments and in which order, the native
  environment is wrapped: \<open>logged api\<close> behaves as \<open>api\<close> and appends every call, with
  its arguments and its reply, to a log kept beside the world.  The pure queries
  (\<open>JxlEncoderVersion\<close>, \<open>JxlEncoderGetError\<close>, \<open>JxlEncoderDistanceFromQuality\<close>,
  \<open>JxlEncoderInitBasicInfo\<close>) leave no entry.
\<close>

datatype native_call =
    Call_JxlEncoderMake
  | Call_JxlEncoderSetBasicInfo JxlBasicInfo
  | Call_JxlEncoderSetColorEncoding JxlColorEncoding
  | Call_JxlEncoderFrameSettingsCreate
  | Call_JxlEncoderSetFrameLossless bool
  | Call_JxlEncoderSetFrameDistance real
  | Call_JxlEncoderFrameSettingsSetOption JxlEncoderFrameSettingId int
  | Call_JxlEncoderAddImageFrame JxlPixelFormat "byte list" size_t
  | Call_JxlEncoderCloseInput
  | Call_JxlEncoderProcessOutput nat
  | Call_JxlDecoderMake
  | Call_JxlDecoderSubscribeEvents nat
  | Call_JxlDecoderSetInput "byte list" nat
  | Call_JxlDecoderCloseInput
  | Call_JxlDecoderProcessInput
  | Call_JxlDecoderGetBasicInfo
  | Call_JxlDecoderSetImageOutBuffer JxlPixelFormat "byte list" size_t
  | Call_Data_Resize nat bool
  | Call_ArgbBuffer_Resize WP2SampleFormat uint32 uint32
  | Call_high_resolution_clock_now

datatype native_reply =
    Reply_none
  | Reply_handle bool
  | Reply_enc JxlEncoderStatus
  | Reply_output "JxlEncoderStatus \<times> byte list"
  | Reply_dec JxlDecoderStatus
  | Reply_pixels "JxlDecoderStatus \<times> byte list"
  | Reply_info "JxlDecoderStatus \<times> JxlBasicInfo"
  | Reply_wp2 WP2Status
  | Reply_buffer "WP2Status \<times> ArgbBuffer"
  | Reply_time real

type_synonym call_log = "(native_call \<times> native_reply) list"

definition record_call ::
  "native_call \<Rightarrow> ('r \<Rightarrow> native_reply) \<Rightarrow> ('w \<Rightarrow> 'r \<times> 'w) \<Rightarrow>
     call_log \<times> 'w \<Rightarrow> 'r \<times> call_log \<times> 'w" where
  "record_call c reply f lw =
     (case f (snd lw) of (r, w') \<Rightarrow> (r, fst lw @ [(c, reply r)], w'))"

definition logged :: "'w native \<Rightarrow> (call_log \<times> 'w) native" where
  "logged api =
     \<lparr>JxlEncoderVersion = JxlEncoderVersion api,
      JxlEncoderMake = record_call Call_JxlEncoderMake Reply_handle (JxlEncoderMake api),
      JxlEncoderInitBasicInfo = JxlEncoderInitBasicInfo api,
      JxlEncoderSetBasicInfo = (\<lambda>basic_info.
        record_call (Call_JxlEncoderSetBasicInfo basic_info) Reply_enc
          (JxlEncoderSetBasicInfo api basic_info)),
      JxlEncoderGetError = (\<lambda>lw. JxlEncoderGetError api (snd lw)),
      JxlEncoderSetColorEncoding = (\<lambda>color_encoding.
        record_call (Call_JxlEncoderSetColorEncoding color_encoding) Reply_enc
          (JxlEncoderSetColorEncoding api color_encoding)),
      JxlEncoderFrameSettingsCreate =
        record_call Call_JxlEncoderFrameSettingsCreate Reply_handle
          (JxlEncoderFrameSettingsCreate api),
      JxlEncoderSetFrameLossless = (\<lambda>lossless.
        record_call (Call_JxlEncoderSetFrameLossless lossless) Reply_enc
          (JxlEncoderSetFrameLossless api lossless)),
      JxlEncoderDistanceFromQuality = JxlEncoderDistanceFromQuality api,
      JxlEncoderSetFrameDistance = (\<lambda>distance.
        record_call (Call_JxlEncoderSetFrameDistance distance) Reply_enc
          (JxlEncoderSetFrameDistance api distance)),
      JxlEncoderFrameSettingsSetOption = (\<lambda>option v.
        record_call (Call_JxlEncoderFrameSettingsSetOption option v) Reply_enc
          (JxlEncoderFrameSettingsSetOption api option v)),
      JxlEncoderAddImageFrame = (\<lambda>pixel_format buffer n.
        record_call (Call_JxlEncoderAddImageFrame pixel_format buffer n) Reply_enc
          (JxlEncoderAddImageFrame api pixel_format buffer n)),
      JxlEncoderCloseInput = (\<lambda>lw.
        (fst lw @ [(Call_JxlEncoderCloseInput, Reply_none)], JxlEncoderCloseInput api (snd lw))),
      JxlEncoderProcessOutput = (\<lambda>avail_out.
        record_call (Call_JxlEncoderProcessOutput avail_out) Reply_output
          (JxlEncoderProcessOutput api avail_out)),
      JxlDecoderMake = record_call Call_JxlDecoderMake Reply_handle (JxlDecoderMake api),
      JxlDecoderSubscribeEvents = (\<lambda>events_wanted.
        record_call (Call_JxlDecoderSubscribeEvents events_wanted) Reply_dec
          (JxlDecoderSubscribeEvents api events_wanted)),
      JxlDecoderSetInput = (\<lambda>input n.
        record_call (Call_JxlDecoderSetInput input n) Reply_dec
          (JxlDecoderSetInput api input n)),
      JxlDecoderCloseInput = (\<lambda>lw.
        (fst lw @ [(Call_JxlDecoderCloseInput, Reply_none)], JxlDecoderCloseInput api (snd lw))),
      JxlDecoderProcessInput =
        record_call Call_JxlDecoderProcessInput Reply_pixels (JxlDecoderProcessInput api),
      JxlDecoderGetBasicInfo =
        record_call Call_JxlDecoderGetBasicInfo Reply_info (JxlDecoderGetBasicInfo api),
      JxlDecoderSetImageOutBuffer = (\<lambda>pixel_format buffer n.
        record_call (Call_JxlDecoderSetImageOutBuffer pixel_format buffer n) Reply_dec
          (JxlDecoderSetImageOutBuffer api pixel_format buffer n)),
      Data_Resize = (\<lambda>data n keep_bytes.
        record_call (Call_Data_Resize n keep_bytes) (\<lambda>r. Reply_wp2 (fst r))
          (Data_Resize api data n keep_bytes)),
      ArgbBuffer_Resize = (\<lambda>buffer w h.
        record_call (Call_ArgbBuffer_Resize (format buffer) w h) Reply_buffer
          (ArgbBuffer_Resize api buffer w h)),
      high_resolution_clock_now =
        record_call Call_high_resolution_clock_now Reply_time (high_resolution_clock_now api),
      ostream_double = ostream_double api\<rparr>"

text \<open>Forgetting the log: what a run in the logging environment returns, read in the
  environment it wraps.\<close>

definition erase_log :: "('a, call_log \<times> 'w) outcome \<Rightarrow> ('a, 'w) outcome" where
  "erase_log out = (fst out, fst (snd out), snd (snd (snd out)))"

definition erase_drain ::
  "((Data, call_log \<times> 'w) outcome + JxlEncoderStatus \<times> Data \<times> nat \<times> call_log \<times> 'w) \<Rightarrow>
     ((Data, 'w) outcome + JxlEncoderStatus \<times> Data \<times> nat \<times> 'w)" where
  "erase_drain r =
     (case r of Inl out \<Rightarrow> Inl (erase_log out)
              | Inr v \<Rightarrow> Inr (fst v, fst (snd v), fst (snd (snd v)), snd (snd (snd (snd v)))))"

subsection \<open>A small native environment to run the adapter on\<close>

text \<open>
  A stand-in for the libraries, used to run the adapter on concrete inputs: its encoder
  emits the submitted pixel bytes as the codestream, as much at a time as there is room
  for; its decoder reports the events of a script and, with the full image, writes the
  input bytes back as pixels; its allocator zero-fills and fails only from \<open>2 ^ 63\<close> bytes on; its clock
  advances by one second at each reading.
\<close>

record toy_world =
  pending :: "byte list"
  script :: "JxlDecoderStatus list"
  reported :: JxlBasicInfo
  clock :: nat

definition toy_start :: "JxlDecoderStatus list \<Rightarrow> JxlBasicInfo \<Rightarrow> toy_world" where
  "toy_start events info = \<lparr>pending = [], script = events, reported = info, clock = 0\<rparr>"

definition toy_info :: "uint32 \<Rightarrow> uint32 \<Rightarrow> uint32 \<Rightarrow> JxlBasicInfo" where
  "toy_info w h a =
     \<lparr>xsize = w, ysize = h, bits_per_sample = 8, uses_original_profile = False,
      num_color_channels = 3, num_extra_channels = (if 0 < a then 1 else 0), alpha_bits = a,
      alpha_premultiplied = False\<rparr>"

definition toy :: "toy_world native" where
  "toy =
     \<lparr>JxlEncoderVersion = 11001,
      JxlEncoderMake = (\<lambda>w. (True, w)),
      JxlEncoderInitBasicInfo = toy_info 0 0 0,
      JxlEncoderSetBasicInfo = (\<lambda>basic_info w. (JXL_ENC_SUCCESS, w)),
      JxlEncoderGetError = (\<lambda>w. 0),
      JxlEncoderSetColorEncoding = (\<lambda>color_encoding w. (JXL_ENC_SUCCESS, w)),
      JxlEncoderFrameSettingsCreate = (\<lambda>w. (True, w)),
      JxlEncoderSetFrameLossless = (\<lambda>lossless w. (JXL_ENC_SUCCESS, w)),
      JxlEncoderDistanceFromQuality = (\<lambda>q. (100 - q) / 10),
      JxlEncoderSetFrameDistance = (\<lambda>distance w. (JXL_ENC_SUCCESS, w)),
      JxlEncoderFrameSettingsSetOption = (\<lambda>option v w. (JXL_ENC_SUCCESS, w)),
      JxlEncoderAddImageFrame = (\<lambda>pixel_format buffer n w.
        (JXL_ENC_SUCCESS, w\<lparr>pending := take (unat n) buffer\<rparr>)),
      JxlEncoderCloseInput = (\<lambda>w. w),
      JxlEncoderProcessOutput = (\<lambda>avail_out w.
        ((if length (pending w) \<le> avail_out then JXL_ENC_SUCCESS else JXL_ENC_NEED_MORE_OUTPUT,
          take avail_out (pending w)),
         w\<lparr>pending := drop avail_out (pending w)\<rparr>)),
      JxlDecoderMake = (\<lambda>w. (True, w)),
      JxlDecoderSubscribeEvents = (\<lambda>events_wanted w. (JXL_DEC_SUCCESS, w)),
      JxlDecoderSetInput = (\<lambda>input n w. (JXL_DEC_SUCCESS, w\<lparr>pending := take n input\<rparr>)),
      JxlDecoderCloseInput = (\<lambda>w. w),
      JxlDecoderProcessInput = (\<lambda>w.
        (case script w of
           [] \<Rightarrow> ((JXL_DEC_ERROR, []), w)
         | e # es \<Rightarrow> ((e, if e = JXL_DEC_FULL_IMAGE then pending w else []), w\<lparr>script := es\<rparr>))),
      JxlDecoderGetBasicInfo = (\<lambda>w. ((JXL_DEC_SUCCESS, reported w), w)),
      JxlDecoderSetImageOutBuffer = (\<lambda>pixel_format buffer n w. (JXL_DEC_SUCCESS, w)),
      Data_Resize = (\<lambda>data n keep_bytes w.
        (if n < 2 ^ 63 then
           (WP2_STATUS_OK,
            \<lparr>bytes = (if keep_bytes
                       then take n (bytes data) @ replicate (n - length (bytes data)) 0
                       else replicate n 0)\<rparr>)
         else (WP2_STATUS_OUT_OF_MEMORY, data), w)),
      ArgbBuffer_Resize = (\<lambda>buffer w h world.
        ((WP2_STATUS_OK,
          buffer\<lparr>width := w, height := h, stride := w * WP2FormatBpp (format buffer),
                 pixels := replicate (unat h * unat (w * WP2FormatBpp (format buffer))) 0\<rparr>),
         world)),
      high_resolution_clock_now = (\<lambda>w. (real (clock w), w\<lparr>clock := clock w + 1\<rparr>)),
      ostream_double = (\<lambda>d. to_string (nat \<lfloor>d\<rfloor>))\<rparr>"

definition toy_task :: "int \<Rightarrow> int \<Rightarrow> TaskInput" where
  "toy_task q e = \<lparr>codec_settings = \<lparr>effort = e, quality = q\<rparr>, image_path = ''img.png''\<rparr>"

definition toy_image :: "WP2SampleFormat \<Rightarrow> uint32 \<Rightarrow> uint32 \<Rightarrow> ArgbBuffer" where
  "toy_image f w h =
     \<lparr>format = f, width = w, height = h, stride = w * WP2FormatBpp f,
      pixels = replicate (unat h * unat (w * WP2FormatBpp f)) 7\<rparr>"


subsection \<open>Vocabulary of the theorems\<close>

text \<open>The diagnostics a call emits, given its result and the quiet flag; a call's outcome
  without them; an outcome as a quiet call would have returned it.\<close>

definition emitted :: "bool \<Rightarrow> 'a StatusOr \<Rightarrow> string list" where
  "emitted quiet r =
     (if quiet then [] else case r of Inl diagnostic \<Rightarrow> [diagnostic] | Inr v \<Rightarrow> [])"

definition result_and_world :: "('a, 'w) outcome \<Rightarrow> 'a StatusOr \<times> 'w" where
  "result_and_world out = (fst out, snd (snd out))"

definition with_quiet :: "bool \<Rightarrow> ('a, 'w) outcome \<Rightarrow> ('a, 'w) outcome" where
  "with_quiet quiet out = (fst out, (if quiet then [] else fst (snd out)), snd (snd out))"

text \<open>
  What the adapter relies on from the libraries.  A successful \<open>Data::Resize\<close> leaves a
  buffer of the requested size, keeping the bytes both sizes cover when asked to, and no
  request of \<open>2 ^ 63\<close> bytes or more succeeds.  \<open>JxlEncoderProcessOutput\<close> writes no more
  than the space it is given.  \<open>ProcessOutput_slack api k\<close>: it asks for more output only
  when it has left at most \<open>k\<close> bytes of that space unused.  A successful
  \<open>ArgbBuffer::Resize\<close> leaves a buffer of the requested dimensions and the same format.
\<close>

definition Data_Resize_contract :: "'w native \<Rightarrow> bool" where
  "Data_Resize_contract api =
     (\<forall>data n keep_bytes w.
        fst (fst (Data_Resize api data n keep_bytes w)) = WP2_STATUS_OK \<longrightarrow>
          length (bytes (snd (fst (Data_Resize api data n keep_bytes w)))) = n \<and> n < 2 ^ 63 \<and>
          (keep_bytes \<longrightarrow>
             take (min n (length (bytes data)))
               (bytes (snd (fst (Data_Resize api data n keep_bytes w)))) =
             take (min n (length (bytes data))) (bytes data)))"

definition ProcessOutput_contract :: "'w native \<Rightarrow> bool" where
  "ProcessOutput_contract api =
     (\<forall>avail_out w. length (snd (fst (JxlEncoderProcessOutput api avail_out w))) \<le> avail_out)"

definition ProcessOutput_slack :: "'w native \<Rightarrow> nat \<Rightarrow> bool" where
  "ProcessOutput_slack api k =
     (\<forall>avail_out w.
        fst (fst (JxlEncoderProcessOutput api avail_out w)) = JXL_ENC_NEED_MORE_OUTPUT \<longrightarrow>
          avail_out \<le> length (snd (fst (JxlEncoderProcessOutput api avail_out w))) + k)"

definition ArgbBuffer_Resize_contract :: "'w native \<Rightarrow> bool" where
  "ArgbBuffer_Resize_contract api =
     (\<forall>buffer w h world.
        fst (fst (ArgbBuffer_Resize api buffer w h world)) = WP2_STATUS_OK \<longrightarrow>
          width (snd (fst (ArgbBuffer_Resize api buffer w h world))) = w \<and>
          height (snd (fst (ArgbBuffer_Resize api buffer w h world))) = h \<and>
          format (snd (fst (ArgbBuffer_Resize api buffer w h world))) = format buffer)"

text \<open>
  The calls of a log that concern the output buffer of \<open>EncodeJxl\<close>: a request for output
  (the space offered, the status and the bytes written) or a resize (the size asked for,
  \<open>keep_bytes\<close>, the status).
\<close>

datatype buffer_event =
    Output_request nat JxlEncoderStatus "byte list"
  | Buffer_resize nat bool WP2Status
  | Other_call

definition buffer_event_of :: "native_call \<times> native_reply \<Rightarrow> buffer_event" where
  "buffer_event_of e =
     (case fst e of
        Call_JxlEncoderProcessOutput avail_out \<Rightarrow>
          (case snd e of Reply_output r \<Rightarrow> Output_request avail_out (fst r) (snd r)
                       | _ \<Rightarrow> Other_call)
      | Call_Data_Resize n keep_bytes \<Rightarrow>
          (case snd e of Reply_wp2 r \<Rightarrow> Buffer_resize n keep_bytes r | _ \<Rightarrow> Other_call)
      | _ \<Rightarrow> Other_call)"

definition buffer_events :: "call_log \<Rightarrow> buffer_event list" where
  "buffer_events trace = filter (\<lambda>e. e \<noteq> Other_call) (map buffer_event_of trace)"

definition is_buffer_call :: "native_call \<Rightarrow> bool" where
  "is_buffer_call c =
     (case c of Call_JxlEncoderProcessOutput avail_out \<Rightarrow> True
              | Call_Data_Resize n keep_bytes \<Rightarrow> True
              | _ \<Rightarrow> False)"

text \<open>
  The spec's words for the drain, as a check of the buffer events after the first
  allocation, given the buffer size and the offset of the first unwritten byte: every
  request offers the space from that offset to the end of the buffer; after a request
  that reports need-more-output the buffer is resized to twice its size (as a \<open>size_t\<close>),
  keeping its bytes, and the next request resumes behind the bytes just written; after
  the first request that reports anything else the buffer is resized to the number of
  bytes written, and nothing follows.
\<close>

fun follows_drain :: "nat \<Rightarrow> nat \<Rightarrow> buffer_event list \<Rightarrow> bool" where
  "follows_drain sz off (Output_request avail_out st chunk # Buffer_resize n keep_bytes r # rest) =
     (avail_out = sz - off \<and> keep_bytes \<and> r = WP2_STATUS_OK \<and>
      (if st = JXL_ENC_NEED_MORE_OUTPUT
       then n = sz * 2 mod 2 ^ 64 \<and> follows_drain n (off + length chunk) rest
       else n = off + length chunk \<and> rest = []))"
| "follows_drain sz off other = False"

fun written_bytes :: "buffer_event list \<Rightarrow> byte list" where
  "written_bytes [] = []"
| "written_bytes (Output_request avail_out st chunk # rest) = chunk @ written_bytes rest"
| "written_bytes (e # rest) = written_bytes rest"

fun buffer_sizes :: "buffer_event list \<Rightarrow> nat list" where
  "buffer_sizes [] = []"
| "buffer_sizes (Buffer_resize n keep_bytes WP2_STATUS_OK # rest) = n # buffer_sizes rest"
| "buffer_sizes (e # rest) = buffer_sizes rest"


definition DecodeJxl_calls :: "Data \<Rightarrow> JxlBasicInfo \<Rightarrow> ArgbBuffer \<Rightarrow> native_call list" where
  "DecodeJxl_calls encoded_image info buffer =
     [Call_JxlDecoderMake,
      Call_JxlDecoderSubscribeEvents 4160,
      Call_JxlDecoderSetInput (bytes encoded_image) (length (bytes encoded_image)),
      Call_JxlDecoderCloseInput,
      Call_JxlDecoderProcessInput,
      Call_JxlDecoderGetBasicInfo,
      Call_JxlDecoderProcessInput,
      Call_ArgbBuffer_Resize (if 0 < alpha_bits info then WP2_RGBA_32 else WP2_RGB_24)
        (xsize info) (ysize info),
      Call_JxlDecoderSetImageOutBuffer (ArgbBufferToJxlPixelFormat buffer) (pixels buffer)
        (ArgbBufferSize buffer),
      Call_JxlDecoderProcessInput,
      Call_high_resolution_clock_now,
      Call_JxlDecoderProcessInput,
      Call_high_resolution_clock_now]"

text \<open>
  A buffer event that respects the slack \<open>k\<close>; what the loop of \<open>EncodeJxl\<close> leaves
  when it ends with a status (the events it added, the bytes below the offset, the
  offset within the buffer); the log a loop result carries; the events of a complete
  drain and the buffer returned.
\<close>

definition slack_ok :: "nat \<Rightarrow> buffer_event \<Rightarrow> bool" where
  "slack_ok k e =
     (case e of Output_request avail_out st chunk \<Rightarrow>
                  st = JXL_ENC_NEED_MORE_OUTPUT \<longrightarrow> avail_out \<le> length chunk + k
              | _ \<Rightarrow> True)"

definition drain_post ::
  "'w native \<Rightarrow> Data \<Rightarrow> nat \<Rightarrow> call_log \<Rightarrow>
     ((Data, call_log \<times> 'w) outcome + JxlEncoderStatus \<times> Data \<times> nat \<times> call_log \<times> 'w) \<Rightarrow> bool" where
  "drain_post api data off l r =
     (case r of
        Inl out \<Rightarrow> True
      | Inr v \<Rightarrow>
          (\<exists>ext. fst (snd (snd (snd v))) = l @ ext \<and>
             follows_drain (data_size data) off
               (buffer_events ext @ [Buffer_resize (fst (snd (snd v))) True WP2_STATUS_OK]) \<and>
             fst (snd (snd v)) \<le> data_size (fst (snd v)) \<and>
             take (fst (snd (snd v))) (bytes (fst (snd v))) =
               take off (bytes data) @ written_bytes (buffer_events ext) \<and>
             (\<forall>k. ProcessOutput_slack api k \<longrightarrow> list_all (slack_ok k) (buffer_events ext))))"


definition drained ::
  "'w native \<Rightarrow> Data \<Rightarrow> buffer_event list \<Rightarrow> bool" where
  "drained api data evs =
     (follows_drain 64 0 evs \<and> bytes data = written_bytes evs \<and>
      (\<forall>k. ProcessOutput_slack api k \<longrightarrow> list_all (slack_ok k) evs))"

text \<open>The readings of the clock that a log holds, in the order they were taken.\<close>

definition clock_readings :: "call_log \<Rightarrow> real list" where
  "clock_readings trace =
     concat (map (\<lambda>e. case snd e of Reply_time t \<Rightarrow> [t] | _ \<Rightarrow> []) trace)"

section \<open>Running the adapter on the small environment\<close>

lemmas toy_simps = logged_def record_call_def toy_def toy_task_def toy_image_def toy_start_def toy_info_def kQualityLossless_def
   ArgbBufferToJxlPixelFormat_def ArgbBufferSize_def EncodeJxl_drain.simps data_size_def write_at_def check_failed_def
   EncodeJxl_basic_info_def EncodeJxl_color_encoding_def Timer_new_def seconds_def ArgbBuffer_of_format_def to_string.simps

lemma toy_Data_Resize_contract: "Data_Resize_contract toy"
  by (simp add: Data_Resize_contract_def toy_def min_def)

lemma toy_ProcessOutput_contract: "ProcessOutput_contract toy"
  by (simp add: ProcessOutput_contract_def toy_def)

lemma toy_ProcessOutput_slack: "ProcessOutput_slack toy 0"
  by (simp add: ProcessOutput_slack_def toy_def)

lemma toy_ArgbBuffer_Resize_contract: "ArgbBuffer_Resize_contract toy"
  by (simp add: ArgbBuffer_Resize_contract_def toy_def)

section \<open>The quality space\<close>

text \<open>
  C6.  \<open>JpegXLLossyQualities\<close> returns a non-empty, strictly increasing sequence, the
  contiguous integer range from 0 to 99, and the lossless sentinel (100) is not in it.
\<close>

theorem JpegXLLossyQualities_range:
  "JpegXLLossyQualities \<noteq> []
   \<and> sorted_wrt (<) JpegXLLossyQualities
   \<and> JpegXLLossyQualities = [0..99]
   \<and> length JpegXLLossyQualities = 100
   \<and> kQualityLossless \<notin> set JpegXLLossyQualities"
proof -
  have eq: "JpegXLLossyQualities = [0..99]"
  proof (rule nth_equalityI)
    show "length JpegXLLossyQualities = length [0..99::int]"
      by (simp add: JpegXLLossyQualities_def)
  next
    fix i
    assume "i < length JpegXLLossyQualities"
    then have "i < 100"
      by (simp add: JpegXLLossyQualities_def)
    then show "JpegXLLossyQualities ! i = [0..99] ! i"
      by (simp add: JpegXLLossyQualities_def)
  qed
  have srt: "sorted_wrt (<) [0..99::int]"
    by (rule sorted_wrt_upto)
  have ne: "[0..99::int] \<noteq> []"
    by (simp add: upto_rec1)
  have len: "length [0..99::int] = 100"
    by simp
  have notin: "kQualityLossless \<notin> set [0..99::int]"
    by (simp add: kQualityLossless_def)
  show ?thesis
    unfolding eq using srt ne len notin by blast
qed

section \<open>Unsupported pixel formats\<close>

text \<open>
  C3.  For a source image whose pixel format is neither RGBA 32-bit nor RGB 24-bit,
  \<open>EncodeJxl\<close> returns at once a failure whose diagnostic is "libjxl requires RGB(A)",
  whatever the libraries would do and whatever the pixels are: the world is left as it
  was, and run against the logging environment the log stays empty, so no encoder was
  created and no native call was made.
\<close>

theorem EncodeJxl_rejects_unsupported_format:
  assumes "format original_image \<noteq> WP2_RGBA_32" and "format original_image \<noteq> WP2_RGB_24"
  shows "EncodeJxl api input original_image quiet w =
           Some (Inl ''libjxl requires RGB(A)'',
                 (if quiet then [] else [''libjxl requires RGB(A)'']), w)
         \<and> EncodeJxl (logged api) input original_image quiet ([], w) =
           Some (Inl ''libjxl requires RGB(A)'',
                 (if quiet then [] else [''libjxl requires RGB(A)'']), ([], w))"
  using assms by (simp add: EncodeJxl_def check_failed_def)

theorem EncodeJxl_rejects_unsupported_format_witness:
  "format (toy_image WP2_ARGB_32 2 2) \<noteq> WP2_RGBA_32
   \<and> format (toy_image WP2_ARGB_32 2 2) \<noteq> WP2_RGB_24
   \<and> EncodeJxl (logged toy) (toy_task 75 7) (toy_image WP2_ARGB_32 2 2) False
        ([], toy_start [] (toy_info 0 0 0)) =
      Some (Inl ''libjxl requires RGB(A)'', [''libjxl requires RGB(A)''],
            ([], toy_start [] (toy_info 0 0 0)))"
proof -
  have f1: "format (toy_image WP2_ARGB_32 2 2) \<noteq> WP2_RGBA_32"
    by (simp add: toy_image_def)
  have f2: "format (toy_image WP2_ARGB_32 2 2) \<noteq> WP2_RGB_24"
    by (simp add: toy_image_def)
  show ?thesis
    using f1 f2
      EncodeJxl_rejects_unsupported_format [OF f1 f2, of toy "toy_task 75 7" False
        "toy_start [] (toy_info 0 0 0)"]
    by simp
qed

section \<open>Builds without the JPEG XL backend\<close>

text \<open>
  C7.  When \<open>HAS_JPEGXL\<close> is not defined, \<open>JpegXLVersion\<close> returns "n/a", and
  \<open>EncodeJxl\<close> and \<open>DecodeJxl\<close> return, for every input, a failure with the fixed
  diagnostic "Encoding images requires HAS\_JPEGXL" (respectively "Decoding images
  requires HAS\_JPEGXL"), leaving the world untouched.  The two functions and the types
  of their arguments exist in the builds that define \<open>HAS_WEBP2\<close>; a build without it
  compiles neither, whatever \<open>HAS_JPEGXL\<close> is.
\<close>

theorem without_jpegxl_stubs:
  assumes "\<not> HAS_JPEGXL flags"
  shows "JpegXLVersion flags api = ''n/a''
   \<and> (if HAS_WEBP2 flags then
         EncodeJxl_as_built flags api input original_image quiet w =
           Compiled (Some (Inl ''Encoding images requires HAS_JPEGXL'',
                           (if quiet then [] else [''Encoding images requires HAS_JPEGXL'']), w))
         \<and> DecodeJxl_as_built flags api input encoded_image quiet w =
           Compiled (Some (Inl ''Decoding images requires HAS_JPEGXL'',
                           (if quiet then [] else [''Decoding images requires HAS_JPEGXL'']), w))
       else
         EncodeJxl_as_built flags api input original_image quiet w = NotCompiled
         \<and> DecodeJxl_as_built flags api input encoded_image quiet w = NotCompiled)"
  using assms
  by (simp add: JpegXLVersion_def EncodeJxl_as_built_def DecodeJxl_as_built_def
      EncodeJxl_without_jpegxl_def DecodeJxl_without_jpegxl_def check_failed_def)

theorem without_jpegxl_stubs_witness:
  "\<not> HAS_JPEGXL \<lparr>HAS_WEBP2 = True, HAS_JPEGXL = False\<rparr>
   \<and> JpegXLVersion \<lparr>HAS_WEBP2 = True, HAS_JPEGXL = False\<rparr> toy = ''n/a''
   \<and> EncodeJxl_as_built \<lparr>HAS_WEBP2 = True, HAS_JPEGXL = False\<rparr> toy (toy_task 75 7)
        (toy_image WP2_RGB_24 2 2) False (toy_start [] (toy_info 0 0 0)) =
      Compiled (Some (Inl ''Encoding images requires HAS_JPEGXL'',
                      [''Encoding images requires HAS_JPEGXL''], toy_start [] (toy_info 0 0 0)))
   \<and> DecodeJxl_as_built \<lparr>HAS_WEBP2 = True, HAS_JPEGXL = False\<rparr> toy (toy_task 75 7)
        \<lparr>bytes = replicate 12 7\<rparr> True (toy_start [] (toy_info 0 0 0)) =
      Compiled (Some (Inl ''Decoding images requires HAS_JPEGXL'', [],
                      toy_start [] (toy_info 0 0 0)))"
proof -
  have h: "\<not> HAS_JPEGXL \<lparr>HAS_WEBP2 = True, HAS_JPEGXL = False\<rparr>"
    by simp
  show ?thesis
    using h
      without_jpegxl_stubs [OF h, of toy "toy_task 75 7" "toy_image WP2_RGB_24 2 2" False
        "toy_start [] (toy_info 0 0 0)" "\<lparr>bytes = replicate 12 7\<rparr>"]
      without_jpegxl_stubs [OF h, of toy "toy_task 75 7" "toy_image WP2_RGB_24 2 2" True
        "toy_start [] (toy_info 0 0 0)" "\<lparr>bytes = replicate 12 7\<rparr>"]
    by simp
qed

section \<open>The diagnostics of the decoder's event sequence\<close>

text \<open>
  C2.  The diagnostic of the fourth processing step does not name that step: a decoder
  whose fourth \<open>JxlDecoderProcessInput\<close> reports another frame (status 5, as for an
  animation) makes \<open>DecodeJxl\<close> fail with "Third call to JxlDecoderProcessInput() failed
  with error code 5", the ordinal of the third step, whose own diagnostic is "Third call
  to JxlDecoderProcessInput() unexpectedly returned".
\<close>

theorem DecodeJxl_fourth_step_says_third:
  "fst (DecodeJxl toy (toy_task 100 7) \<lparr>bytes = replicate 12 7\<rparr> False
         (toy_start [JXL_DEC_BASIC_INFO, JXL_DEC_NEED_IMAGE_OUT_BUFFER, JXL_DEC_FULL_IMAGE,
                     JXL_DEC_NEED_IMAGE_OUT_BUFFER] (toy_info 2 2 0))) =
     Inl ''Third call to JxlDecoderProcessInput() failed with error code 5 when decoding img.png''
   \<and> fst (DecodeJxl toy (toy_task 100 7) \<lparr>bytes = replicate 12 7\<rparr> False
         (toy_start [JXL_DEC_BASIC_INFO, JXL_DEC_NEED_IMAGE_OUT_BUFFER, JXL_DEC_ERROR]
            (toy_info 2 2 0))) =
     Inl ''Third call to JxlDecoderProcessInput() unexpectedly returned 1 when decoding img.png''"
  by (simp add: DecodeJxl_def DecodeJxl_image_def toy_simps)

section \<open>The quiet flag\<close>

text \<open>The loop of \<open>EncodeJxl\<close> takes the same course for both values of the flag.\<close>

lemma with_quiet_check_failed [simp]:
  "with_quiet q (check_failed False m w) = check_failed q m w"
  by (simp add: with_quiet_def check_failed_def)

lemma drain_loud_to_any:
  assumes run: "EncodeJxl_drain api False data off w = Some r'"
  shows "EncodeJxl_drain api q data off w = Some (map_sum (with_quiet q) id r')"
proof -
  have "\<not> False \<longrightarrow> EncodeJxl_drain api q data off w = Some (map_sum (with_quiet q) id r')"
  proof (rule EncodeJxl_drain.raw_induct
      [where P = "\<lambda>api q0 data off w r'. \<not> q0 \<longrightarrow>
         EncodeJxl_drain api q data off w = Some (map_sum (with_quiet q) id r')", OF _ run],
      goal_cases)
    case (1 drain api q0 data off w r')
    show ?case
    proof
      assume "\<not> q0"
      then have q0: "q0 = False" by simp
      have IH: "drain api False d n v = Some y \<Longrightarrow>
                  EncodeJxl_drain api q d n v = Some (map_sum (with_quiet q) id y)" for d n v y
        using 1(1) [of api False d n v y] by simp
      show "EncodeJxl_drain api q data off w = Some (map_sum (with_quiet q) id r')"
        using 1(2) unfolding q0
        by (subst EncodeJxl_drain.simps) (auto split: prod.splits if_splits simp: IH)
    qed
  qed
  then show ?thesis by simp
qed

lemma drain_any_to_loud:
  assumes run: "EncodeJxl_drain api q data off w = Some r"
  shows "\<exists>r'. EncodeJxl_drain api False data off w = Some r' \<and> r = map_sum (with_quiet q) id r'"
proof (rule EncodeJxl_drain.raw_induct
    [where P = "\<lambda>api q data off w r. \<exists>r'. EncodeJxl_drain api False data off w = Some r' \<and>
       r = map_sum (with_quiet q) id r'", OF _ run], goal_cases)
  case (1 drain api q data off w r)
  have IH: "drain api q d n v = Some y \<Longrightarrow>
              \<exists>r'. EncodeJxl_drain api False d n v = Some r' \<and> y = map_sum (with_quiet q) id r'"
    for d n v y
    using 1(1) [of api q d n v y] by simp
  show ?case
    using 1(2)
    by (subst EncodeJxl_drain.simps) (auto split: prod.splits if_splits dest: IH)
qed

lemma EncodeJxl_drain_quiet:
  "EncodeJxl_drain api q data off w =
     map_option (map_sum (with_quiet q) id) (EncodeJxl_drain api False data off w)"
proof (cases "EncodeJxl_drain api False data off w")
  case None
  then show ?thesis
    using drain_any_to_loud [of api q data off w] by (cases "EncodeJxl_drain api q data off w") auto
next
  case (Some r')
  then show ?thesis
    using drain_loud_to_any [of api data off w r' q] by simp
qed

lemma drain_True:
  "EncodeJxl_drain api True data off w =
     map_option (map_sum (with_quiet True) id) (EncodeJxl_drain api False data off w)"
  by (rule EncodeJxl_drain_quiet)

lemma EncodeJxl_frame_True:
  "EncodeJxl_frame api input img True w =
     map_option (with_quiet True) (EncodeJxl_frame api input img False w)"
  unfolding EncodeJxl_frame_def drain_True
  by (auto split: prod.splits option.splits sum.splits simp: with_quiet_def check_failed_def)

lemma EncodeJxl_True:
  "EncodeJxl api input img True w =
     map_option (with_quiet True) (EncodeJxl api input img False w)"
  unfolding EncodeJxl_def EncodeJxl_frame_True
  by (auto split: prod.splits simp: with_quiet_def check_failed_def Let_def)

lemma DecodeJxl_True:
  "DecodeJxl api input enc True w = with_quiet True (DecodeJxl api input enc False w)"
  unfolding DecodeJxl_def DecodeJxl_image_def
  by (auto split: prod.splits simp: with_quiet_def check_failed_def Let_def)

lemma drain_emitted:
  assumes run: "EncodeJxl_drain api q data off w = Some r"
  shows "case r of Inl out \<Rightarrow> fst (snd out) = emitted q (fst out) | Inr v \<Rightarrow> True"
proof (rule EncodeJxl_drain.raw_induct
    [where P = "\<lambda>api q data off w r.
       case r of Inl out \<Rightarrow> fst (snd out) = emitted q (fst out) | Inr v \<Rightarrow> True", OF _ run],
    goal_cases)
  case (1 drain api q data off w r)
  have IH: "drain api q d n v = Some y \<Longrightarrow>
              (case y of Inl out \<Rightarrow> fst (snd out) = emitted q (fst out) | Inr v \<Rightarrow> True)"
    for d n v y
    using 1(1) [of api q d n v y] by simp
  show ?case
    using 1(2)
    by (auto split: prod.splits if_splits simp: check_failed_def emitted_def dest: IH)
qed

lemma EncodeJxl_frame_emitted:
  "EncodeJxl_frame api input img q w = Some out \<Longrightarrow> fst (snd out) = emitted q (fst out)"
  unfolding EncodeJxl_frame_def
  by (auto split: prod.splits option.splits sum.splits if_splits
      simp: check_failed_def emitted_def dest!: drain_emitted)

lemma EncodeJxl_emitted:
  "EncodeJxl api input img q w = Some out \<Longrightarrow> fst (snd out) = emitted q (fst out)"
  unfolding EncodeJxl_def
  by (auto split: prod.splits if_splits
      simp: check_failed_def emitted_def Let_def dest!: EncodeJxl_frame_emitted)

lemma DecodeJxl_emitted:
  "fst (snd (DecodeJxl api input enc q w)) = emitted q (fst (DecodeJxl api input enc q w))"
  unfolding DecodeJxl_def DecodeJxl_image_def
  by (auto split: prod.splits simp: check_failed_def emitted_def Let_def)

text \<open>
  C5.  For every task, image or payload, library behaviour and world, \<open>EncodeJxl\<close> and
  \<open>DecodeJxl\<close> return the same result and leave the same world for both values of the
  quiet flag (and \<open>EncodeJxl\<close> returns for the one exactly when it returns for the other);
  the diagnostics emitted are none when the flag is true and, when it is false, exactly
  the failure's diagnostic if the call fails and none if it succeeds.
\<close>

theorem quiet_controls_only_the_diagnostic:
  "map_option result_and_world (EncodeJxl api input original_image True w) =
     map_option result_and_world (EncodeJxl api input original_image False w)
   \<and> map_option (\<lambda>out. fst (snd out)) (EncodeJxl api input original_image quiet w) =
     map_option (\<lambda>out. emitted quiet (fst out)) (EncodeJxl api input original_image quiet w)
   \<and> result_and_world (DecodeJxl api input encoded_image True w) =
     result_and_world (DecodeJxl api input encoded_image False w)
   \<and> fst (snd (DecodeJxl api input encoded_image quiet w)) =
     emitted quiet (fst (DecodeJxl api input encoded_image quiet w))"
proof -
  have e1: "map_option result_and_world (EncodeJxl api input original_image True w) =
     map_option result_and_world (EncodeJxl api input original_image False w)"
    by (cases "EncodeJxl api input original_image False w")
      (simp_all add: EncodeJxl_True result_and_world_def with_quiet_def)
  have e2: "map_option (\<lambda>out. fst (snd out)) (EncodeJxl api input original_image quiet w) =
     map_option (\<lambda>out. emitted quiet (fst out)) (EncodeJxl api input original_image quiet w)"
    by (cases "EncodeJxl api input original_image quiet w") (auto dest: EncodeJxl_emitted)
  have d1: "result_and_world (DecodeJxl api input encoded_image True w) =
     result_and_world (DecodeJxl api input encoded_image False w)"
    by (simp add: DecodeJxl_True result_and_world_def with_quiet_def)
  have d2: "fst (snd (DecodeJxl api input encoded_image quiet w)) =
     emitted quiet (fst (DecodeJxl api input encoded_image quiet w))"
    by (rule DecodeJxl_emitted)
  show ?thesis
    by (intro conjI) (fact e1, fact e2, fact d1, fact d2)
qed

section \<open>The native calls of a run\<close>

subsection \<open>The logging environment, call by call\<close>

lemma logged_pure [simp]:
  "JxlEncoderGetError (logged api) lw = JxlEncoderGetError api (snd lw)"
  "JxlEncoderDistanceFromQuality (logged api) = JxlEncoderDistanceFromQuality api"
  "JxlEncoderInitBasicInfo (logged api) = JxlEncoderInitBasicInfo api"
  "JxlEncoderVersion (logged api) = JxlEncoderVersion api"
  "ostream_double (logged api) = ostream_double api"
  by (simp_all add: logged_def)

lemma logged_encoder_calls:
  "JxlEncoderMake (logged api) lw =
     (fst (JxlEncoderMake api (snd lw)),
      fst lw @ [(Call_JxlEncoderMake, Reply_handle (fst (JxlEncoderMake api (snd lw))))],
      snd (JxlEncoderMake api (snd lw)))"
  "JxlEncoderSetBasicInfo (logged api) bi lw =
     (fst (JxlEncoderSetBasicInfo api bi (snd lw)),
      fst lw @ [(Call_JxlEncoderSetBasicInfo bi,
                 Reply_enc (fst (JxlEncoderSetBasicInfo api bi (snd lw))))],
      snd (JxlEncoderSetBasicInfo api bi (snd lw)))"
  "JxlEncoderSetColorEncoding (logged api) ce lw =
     (fst (JxlEncoderSetColorEncoding api ce (snd lw)),
      fst lw @ [(Call_JxlEncoderSetColorEncoding ce,
                 Reply_enc (fst (JxlEncoderSetColorEncoding api ce (snd lw))))],
      snd (JxlEncoderSetColorEncoding api ce (snd lw)))"
  "JxlEncoderFrameSettingsCreate (logged api) lw =
     (fst (JxlEncoderFrameSettingsCreate api (snd lw)),
      fst lw @ [(Call_JxlEncoderFrameSettingsCreate,
                 Reply_handle (fst (JxlEncoderFrameSettingsCreate api (snd lw))))],
      snd (JxlEncoderFrameSettingsCreate api (snd lw)))"
  "JxlEncoderSetFrameLossless (logged api) b lw =
     (fst (JxlEncoderSetFrameLossless api b (snd lw)),
      fst lw @ [(Call_JxlEncoderSetFrameLossless b,
                 Reply_enc (fst (JxlEncoderSetFrameLossless api b (snd lw))))],
      snd (JxlEncoderSetFrameLossless api b (snd lw)))"
  "JxlEncoderSetFrameDistance (logged api) d lw =
     (fst (JxlEncoderSetFrameDistance api d (snd lw)),
      fst lw @ [(Call_JxlEncoderSetFrameDistance d,
                 Reply_enc (fst (JxlEncoderSetFrameDistance api d (snd lw))))],
      snd (JxlEncoderSetFrameDistance api d (snd lw)))"
  "JxlEncoderFrameSettingsSetOption (logged api) opt v lw =
     (fst (JxlEncoderFrameSettingsSetOption api opt v (snd lw)),
      fst lw @ [(Call_JxlEncoderFrameSettingsSetOption opt v,
                 Reply_enc (fst (JxlEncoderFrameSettingsSetOption api opt v (snd lw))))],
      snd (JxlEncoderFrameSettingsSetOption api opt v (snd lw)))"
  "JxlEncoderAddImageFrame (logged api) pf buf n lw =
     (fst (JxlEncoderAddImageFrame api pf buf n (snd lw)),
      fst lw @ [(Call_JxlEncoderAddImageFrame pf buf n,
                 Reply_enc (fst (JxlEncoderAddImageFrame api pf buf n (snd lw))))],
      snd (JxlEncoderAddImageFrame api pf buf n (snd lw)))"
  "JxlEncoderCloseInput (logged api) lw =
     (fst lw @ [(Call_JxlEncoderCloseInput, Reply_none)], JxlEncoderCloseInput api (snd lw))"
  by (simp_all add: logged_def record_call_def split: prod.splits)

lemma logged_ProcessOutput:
  "JxlEncoderProcessOutput (logged api) avail lw =
     (fst (JxlEncoderProcessOutput api avail (snd lw)),
      fst lw @ [(Call_JxlEncoderProcessOutput avail,
                 Reply_output (fst (JxlEncoderProcessOutput api avail (snd lw))))],
      snd (JxlEncoderProcessOutput api avail (snd lw)))"
  by (simp add: logged_def record_call_def split: prod.splits)

lemma logged_Data_Resize:
  "Data_Resize (logged api) d n k lw =
     (fst (Data_Resize api d n k (snd lw)),
      fst lw @ [(Call_Data_Resize n k, Reply_wp2 (fst (fst (Data_Resize api d n k (snd lw)))))],
      snd (Data_Resize api d n k (snd lw)))"
  by (simp add: logged_def record_call_def split: prod.splits)

lemma logged_decoder_calls:
  "JxlDecoderMake (logged api) lw =
     (fst (JxlDecoderMake api (snd lw)),
      fst lw @ [(Call_JxlDecoderMake, Reply_handle (fst (JxlDecoderMake api (snd lw))))],
      snd (JxlDecoderMake api (snd lw)))"
  "JxlDecoderSubscribeEvents (logged api) ev lw =
     (fst (JxlDecoderSubscribeEvents api ev (snd lw)),
      fst lw @ [(Call_JxlDecoderSubscribeEvents ev,
                 Reply_dec (fst (JxlDecoderSubscribeEvents api ev (snd lw))))],
      snd (JxlDecoderSubscribeEvents api ev (snd lw)))"
  "JxlDecoderSetInput (logged api) bs len lw =
     (fst (JxlDecoderSetInput api bs len (snd lw)),
      fst lw @ [(Call_JxlDecoderSetInput bs len,
                 Reply_dec (fst (JxlDecoderSetInput api bs len (snd lw))))],
      snd (JxlDecoderSetInput api bs len (snd lw)))"
  "JxlDecoderCloseInput (logged api) lw =
     (fst lw @ [(Call_JxlDecoderCloseInput, Reply_none)], JxlDecoderCloseInput api (snd lw))"
  "JxlDecoderProcessInput (logged api) lw =
     (fst (JxlDecoderProcessInput api (snd lw)),
      fst lw @ [(Call_JxlDecoderProcessInput,
                 Reply_pixels (fst (JxlDecoderProcessInput api (snd lw))))],
      snd (JxlDecoderProcessInput api (snd lw)))"
  "JxlDecoderGetBasicInfo (logged api) lw =
     (fst (JxlDecoderGetBasicInfo api (snd lw)),
      fst lw @ [(Call_JxlDecoderGetBasicInfo,
                 Reply_info (fst (JxlDecoderGetBasicInfo api (snd lw))))],
      snd (JxlDecoderGetBasicInfo api (snd lw)))"
  "JxlDecoderSetImageOutBuffer (logged api) pf buf n lw =
     (fst (JxlDecoderSetImageOutBuffer api pf buf n (snd lw)),
      fst lw @ [(Call_JxlDecoderSetImageOutBuffer pf buf n,
                 Reply_dec (fst (JxlDecoderSetImageOutBuffer api pf buf n (snd lw))))],
      snd (JxlDecoderSetImageOutBuffer api pf buf n (snd lw)))"
  "ArgbBuffer_Resize (logged api) b x y lw =
     (fst (ArgbBuffer_Resize api b x y (snd lw)),
      fst lw @ [(Call_ArgbBuffer_Resize (format b) x y,
                 Reply_buffer (fst (ArgbBuffer_Resize api b x y (snd lw))))],
      snd (ArgbBuffer_Resize api b x y (snd lw)))"
  "high_resolution_clock_now (logged api) lw =
     (fst (high_resolution_clock_now api (snd lw)),
      fst lw @ [(Call_high_resolution_clock_now,
                 Reply_time (fst (high_resolution_clock_now api (snd lw))))],
      snd (high_resolution_clock_now api (snd lw)))"
  by (simp_all add: logged_def record_call_def split: prod.splits)

lemma events_wanted: "(64::nat) OR 4096 = 4160"
  by simp

lemma EncodeJxl_basic_info_logged [simp]:
  "EncodeJxl_basic_info (logged api) input img = EncodeJxl_basic_info api input img"
  by (simp add: EncodeJxl_basic_info_def)

subsection \<open>Logging does not change a run\<close>

text \<open>A run in the logging environment returns what the run in the wrapped environment
  returns, and leaves the same world, whatever the log held before: the log only records.
  For the loop this includes not returning.\<close>

lemma erase_log_simps [simp]:
  "erase_log (check_failed q m lw) = check_failed q m (snd lw)"
  "erase_log (x, ms, l, w) = (x, ms, w)"
  by (simp_all add: erase_log_def check_failed_def)

lemma erase_drain_simps [simp]:
  "erase_drain (Inl out) = Inl (erase_log out)"
  "erase_drain (Inr (st, d, n, l, w)) = Inr (st, d, n, w)"
  by (simp_all add: erase_drain_def)

lemma drain_logged_to_plain:
  assumes run: "EncodeJxl_drain (logged api) q data off lw = Some r"
  shows "EncodeJxl_drain api q data off (snd lw) = Some (erase_drain r)"
proof -
  have "logged api = logged api \<longrightarrow>
      EncodeJxl_drain api q data off (snd lw) = Some (erase_drain r)"
  proof (rule EncodeJxl_drain.raw_induct
    [where P = "\<lambda>a q data off lw r. a = logged api \<longrightarrow>
       EncodeJxl_drain api q data off (snd lw) = Some (erase_drain r)", OF _ run], goal_cases)
    case (1 drain a q data off lw r)
    note IH = 1(1) [rule_format] and body = 1(2)
    show ?case
    proof (intro impI)
      assume a: "a = logged api"
      have IH': "drain (logged api) q d n x = Some y \<Longrightarrow>
          EncodeJxl_drain api q d n (snd x) = Some (erase_drain y)" for d n x y
        using IH [of "logged api" q d n x y] by simp
      show "EncodeJxl_drain api q data off (snd lw) = Some (erase_drain r)"
        using body unfolding a logged_ProcessOutput logged_Data_Resize
        by (subst EncodeJxl_drain.simps)
          (auto split: prod.splits if_splits dest: IH')
    qed
  qed
  then show ?thesis by simp
qed

lemma drain_plain_to_logged:
  assumes run: "EncodeJxl_drain api q data off w = Some r'"
  shows "\<exists>r. EncodeJxl_drain (logged api) q data off (l, w) = Some r \<and> erase_drain r = r'"
proof -
  have "\<forall>l. \<exists>r. EncodeJxl_drain (logged api) q data off (l, w) = Some r \<and> erase_drain r = r'"
  proof (rule EncodeJxl_drain.raw_induct
    [where P = "\<lambda>a q data off w r'. \<forall>l. \<exists>r.
       EncodeJxl_drain (logged a) q data off (l, w) = Some r \<and> erase_drain r = r'",
     OF _ run], goal_cases)
    case (1 drain a q data off w r')
    note IH = 1(1) [rule_format] and body = 1(2)
    show ?case
    proof
      fix l
      show "\<exists>r. EncodeJxl_drain (logged a) q data off (l, w) = Some r \<and> erase_drain r = r'"
        using body
        apply (subst EncodeJxl_drain.simps)
        unfolding logged_ProcessOutput logged_Data_Resize
        by (auto split: prod.splits if_splits intro!: IH)
    qed
  qed
  then show ?thesis by blast
qed

lemma EncodeJxl_drain_logged:
  "map_option erase_drain (EncodeJxl_drain (logged api) q data off lw) =
     EncodeJxl_drain api q data off (snd lw)"
proof (cases "EncodeJxl_drain api q data off (snd lw)")
  case None
  then show ?thesis
    using drain_logged_to_plain [of api q data off lw]
    by (cases "EncodeJxl_drain (logged api) q data off lw") auto
next
  case (Some r')
  then show ?thesis
    using drain_plain_to_logged [of api q data off "snd lw" r' "fst lw"] by auto
qed

lemma EncodeJxl_frame_logged:
  "map_option erase_log (EncodeJxl_frame (logged api) input img q lw) =
     EncodeJxl_frame api input img q (snd lw)"
proof -
  obtain l w where lw: "lw = (l, w)" by (cases lw)
  obtain s1 w6 where c1: "JxlEncoderFrameSettingsSetOption api JXL_ENC_FRAME_SETTING_EFFORT
      (effort (codec_settings input)) w = (s1, w6)"
    by (cases "JxlEncoderFrameSettingsSetOption api JXL_ENC_FRAME_SETTING_EFFORT
      (effort (codec_settings input)) w")
  obtain s2 w7 where c2: "JxlEncoderAddImageFrame api (ArgbBufferToJxlPixelFormat img)
      (pixels img) (ArgbBufferSize img) w6 = (s2, w7)"
    by (cases "JxlEncoderAddImageFrame api (ArgbBufferToJxlPixelFormat img)
      (pixels img) (ArgbBufferSize img) w6")
  obtain s3 d w9 where c3: "Data_Resize api \<lparr>bytes = []\<rparr> 64 False
      (JxlEncoderCloseInput api w7) = ((s3, d), w9)"
    by (cases "Data_Resize api \<lparr>bytes = []\<rparr> 64 False (JxlEncoderCloseInput api w7)") auto
  define l9 where "l9 = l @
     [(Call_JxlEncoderFrameSettingsSetOption JXL_ENC_FRAME_SETTING_EFFORT
         (effort (codec_settings input)), Reply_enc JXL_ENC_SUCCESS),
      (Call_JxlEncoderAddImageFrame (ArgbBufferToJxlPixelFormat img) (pixels img)
         (ArgbBufferSize img), Reply_enc JXL_ENC_SUCCESS),
      (Call_JxlEncoderCloseInput, Reply_none),
      (Call_Data_Resize 64 False, Reply_wp2 WP2_STATUS_OK)]"
  have link: "map_option erase_drain (EncodeJxl_drain (logged api) q d 0 (l9, w9)) =
      EncodeJxl_drain api q d 0 w9"
    using EncodeJxl_drain_logged [of api q d 0 "(l9, w9)"] by simp
  show ?thesis
  proof (cases "EncodeJxl_drain (logged api) q d 0 (l9, w9)")
    case None
    with link have "EncodeJxl_drain api q d 0 w9 = None" by simp
    with None show ?thesis
      unfolding lw EncodeJxl_frame_def logged_encoder_calls logged_Data_Resize
      by (simp add: c1 c2 c3 l9_def)
  next
    case (Some r)
    with link have plain: "EncodeJxl_drain api q d 0 w9 = Some (erase_drain r)" by simp
    show ?thesis
    proof (cases r)
      case (Inl out)
      with Some plain show ?thesis
        unfolding lw EncodeJxl_frame_def logged_encoder_calls logged_Data_Resize
        by (simp add: c1 c2 c3 l9_def)
    next
      case (Inr v)
      obtain st d1 off l10 w10 where v: "v = (st, d1, off, l10, w10)" by (cases v)
      obtain s4 d2 w11 where c4: "Data_Resize api d1 off True w10 = ((s4, d2), w11)"
        by (cases "Data_Resize api d1 off True w10") auto
      from Some plain Inr v show ?thesis
        unfolding lw EncodeJxl_frame_def logged_encoder_calls logged_Data_Resize
        by (simp add: c1 c2 c3 c4 l9_def)
    qed
  qed
qed

lemma EncodeJxl_logged:
  "map_option erase_log (EncodeJxl (logged api) input img q lw) =
     EncodeJxl api input img q (snd lw)"
  unfolding EncodeJxl_def logged_encoder_calls
  by (auto split: prod.splits simp: Let_def EncodeJxl_frame_logged)

lemma DecodeJxl_image_logged:
  "erase_log (DecodeJxl_image (logged api) input q info lw) =
     DecodeJxl_image api input q info (snd lw)"
  unfolding DecodeJxl_image_def logged_decoder_calls Timer_new_def seconds_def
  by (auto split: prod.splits)

lemma DecodeJxl_logged:
  "erase_log (DecodeJxl (logged api) input enc q lw) = DecodeJxl api input enc q (snd lw)"
  unfolding DecodeJxl_def logged_decoder_calls
  by (auto split: prod.splits simp: DecodeJxl_image_logged)

subsection \<open>Buffers and buffer events\<close>

lemma length_write_at [simp]: "length (write_at b off chunk) = length b"
  by (simp add: write_at_def)

lemma take_write_at:
  "off + length chunk \<le> length b \<Longrightarrow> take (off + length chunk) (write_at b off chunk) = take off b @ chunk"
  by (cases chunk) (auto simp: write_at_def min_def)

lemma buffer_events_Nil [simp]: "buffer_events [] = []"
  by (simp add: buffer_events_def)

lemma buffer_events_append [simp]: "buffer_events (xs @ ys) = buffer_events xs @ buffer_events ys"
  by (simp add: buffer_events_def)

lemma buffer_events_output [simp]:
  "buffer_events [(Call_JxlEncoderProcessOutput avail, Reply_output r)] =
     [Output_request avail (fst r) (snd r)]"
  by (simp add: buffer_events_def buffer_event_of_def)

lemma buffer_events_resize [simp]:
  "buffer_events [(Call_Data_Resize n k, Reply_wp2 r)] = [Buffer_resize n k r]"
  by (simp add: buffer_events_def buffer_event_of_def)

lemma buffer_events_other [simp]:
  "buffer_events [(Call_JxlEncoderFrameSettingsSetOption opt v, r1)] = []"
  "buffer_events [(Call_JxlEncoderAddImageFrame pf buf n, r2)] = []"
  "buffer_events [(Call_JxlEncoderCloseInput, r3)] = []"
  "buffer_events [(Call_JxlEncoderMake, r4)] = []"
  "buffer_events [(Call_JxlEncoderSetBasicInfo bi, r5)] = []"
  "buffer_events [(Call_JxlEncoderSetColorEncoding ce, r6)] = []"
  "buffer_events [(Call_JxlEncoderFrameSettingsCreate, r7)] = []"
  "buffer_events [(Call_JxlEncoderSetFrameLossless b, r8)] = []"
  "buffer_events [(Call_JxlEncoderSetFrameDistance d, r9)] = []"
  by (simp_all add: buffer_events_def buffer_event_of_def)

lemma buffer_events_Cons:
  "buffer_events (e # es) = buffer_events [e] @ buffer_events es"
  by (simp add: buffer_events_def)

lemma buffer_events_skip:
  "\<not> is_buffer_call (fst e) \<Longrightarrow> buffer_events (e # es) = buffer_events es"
  by (cases e; cases "fst e")
    (auto simp: buffer_events_def buffer_event_of_def is_buffer_call_def)

lemma written_bytes_single [simp]:
  "written_bytes (Output_request a s c # es) = c @ written_bytes es"
  "written_bytes (Buffer_resize n k r # es) = written_bytes es"
  by simp_all

lemma written_bytes_append [simp]:
  "written_bytes (xs @ ys) = written_bytes xs @ written_bytes ys"
  by (induction xs rule: written_bytes.induct) simp_all

lemma slack_ok_resize [simp]: "slack_ok k (Buffer_resize n b r)"
  by (simp add: slack_ok_def)

lemma Data_Resize_contractD:
  assumes "Data_Resize_contract api" and "fst (fst (Data_Resize api d n k w)) = WP2_STATUS_OK"
  shows "length (bytes (snd (fst (Data_Resize api d n k w)))) = n"
    and "n < 2 ^ 63"
    and "k \<Longrightarrow> take (min n (length (bytes d))) (bytes (snd (fst (Data_Resize api d n k w)))) =
           take (min n (length (bytes d))) (bytes d)"
  using assms unfolding Data_Resize_contract_def by blast+

lemma ArgbBuffer_Resize_contractD:
  assumes "ArgbBuffer_Resize_contract api"
    and "fst (fst (ArgbBuffer_Resize api b x y v)) = WP2_STATUS_OK"
  shows "width (snd (fst (ArgbBuffer_Resize api b x y v))) = x"
    and "height (snd (fst (ArgbBuffer_Resize api b x y v))) = y"
    and "format (snd (fst (ArgbBuffer_Resize api b x y v))) = format b"
  using assms unfolding ArgbBuffer_Resize_contract_def by blast+

subsection \<open>The loop of EncodeJxl\<close>

lemma drain_trace:
  assumes resize: "Data_Resize_contract api"
    and fits_avail: "ProcessOutput_contract api"
    and run: "EncodeJxl_drain (logged api) q data off lw = Some r"
  shows "off \<le> data_size data \<longrightarrow> data_size data < 2 ^ 63 \<longrightarrow> drain_post api data off (fst lw) r"
proof -
  have "logged api = logged api \<longrightarrow> off \<le> data_size data \<longrightarrow>
       data_size data < 2 ^ 63 \<longrightarrow> drain_post api data off (fst lw) r"
  proof (rule EncodeJxl_drain.raw_induct
    [where P = "\<lambda>a q data off lw r. a = logged api \<longrightarrow> off \<le> data_size data \<longrightarrow>
       data_size data < 2 ^ 63 \<longrightarrow> drain_post api data off (fst lw) r",
     OF _ run], goal_cases)
  case (1 drain a q data off lw r)
  note IH = 1(1) [rule_format] and body = 1(2)
  show ?case
  proof (intro impI)
  assume a: "a = logged api" and off: "off \<le> data_size data" and small: "data_size data < 2 ^ 63"
  define po where "po = JxlEncoderProcessOutput api (data_size data - off) (snd lw)"
  define status where "status = fst (fst po)"
  define chunk where "chunk = snd (fst po)"
  define e1 where "e1 = (Call_JxlEncoderProcessOutput (data_size data - off), Reply_output (fst po))"
  define d1 where "d1 = data\<lparr>bytes := write_at (bytes data) off chunk\<rparr>"
  have chunk_fits: "length chunk \<le> data_size data - off"
    using fits_avail unfolding ProcessOutput_contract_def chunk_def po_def by blast
  have fits: "off + length chunk \<le> data_size data"
    using chunk_fits off by simp
  have d1_size: "data_size d1 = data_size data"
    by (simp add: d1_def data_size_def)
  have d1_take: "take (off + length chunk) (bytes d1) = take off (bytes data) @ chunk"
    using fits by (simp add: d1_def take_write_at data_size_def)
  have ev1: "buffer_events [e1] = [Output_request (data_size data - off) status chunk]"
    by (simp add: e1_def status_def chunk_def)
  have slack1: "ProcessOutput_slack api k \<Longrightarrow>
      slack_ok k (Output_request (data_size data - off) status chunk)" for k
    unfolding ProcessOutput_slack_def slack_ok_def status_def chunk_def po_def by auto
  show "drain_post api data off (fst lw) r"
  proof (cases "status = JXL_ENC_NEED_MORE_OUTPUT")
    case False
    have r: "r = Inr (status, d1, off + length chunk, fst lw @ [e1], snd po)"
      using body False unfolding a logged_ProcessOutput
      by (simp add: status_def chunk_def po_def e1_def d1_def split: prod.splits)
    show ?thesis
      unfolding drain_post_def r sum.case
      apply (rule exI [of _ "[e1]"])
      using False fits d1_size d1_take slack1
      by (simp add: ev1)
  next
    case True
    define n where "n = data_size data * 2 mod 2 ^ 64"
    define rs where "rs = Data_Resize api d1 n True (snd po)"
    define e2 where "e2 = (Call_Data_Resize n True, Reply_wp2 (fst (fst rs)))"
    have n2: "n = data_size data * 2"
      using small by (simp add: n_def)
    show ?thesis
    proof (cases "fst (fst rs) = WP2_STATUS_OK")
      case False
      have "\<exists>out. r = Inl out"
        using body True False unfolding a logged_ProcessOutput logged_Data_Resize
        by (auto simp add: status_def chunk_def po_def rs_def n_def d1_def check_failed_def
            split: prod.splits)
      then show ?thesis
        by (auto simp: drain_post_def)
    next
      case ok: True
      define data2 where "data2 = snd (fst rs)"
      have rec: "drain (logged api) q data2 (off + length chunk) (fst lw @ [e1, e2], snd rs) = Some r"
        using body True ok unfolding a logged_ProcessOutput logged_Data_Resize
        by (simp add: status_def chunk_def po_def rs_def n_def d1_def e1_def e2_def data2_def
            split: prod.splits)
      have len2: "data_size data2 = n"
        using Data_Resize_contractD(1) [OF resize, of d1 n True "snd po"] ok
        by (simp add: rs_def data2_def data_size_def)
      have small2: "data_size data2 < 2 ^ 63"
        using Data_Resize_contractD(2) [OF resize, of d1 n True "snd po"] ok len2
        by (simp add: rs_def)
      have m: "min n (length (bytes d1)) = data_size data"
        using n2 d1_size by (simp add: data_size_def)
      have keep: "take (data_size data) (bytes data2) = take (data_size data) (bytes d1)"
        using Data_Resize_contractD(3) [OF resize, of d1 n True "snd po"] ok
        unfolding m by (simp add: rs_def data2_def)
      have take2: "take (off + length chunk) (bytes data2) = take off (bytes data) @ chunk"
      proof -
        have "take (off + length chunk) (bytes data2) =
                take (off + length chunk) (take (data_size data) (bytes data2))"
          using fits by (simp add: min_def)
        also have "\<dots> = take (off + length chunk) (bytes d1)"
          using fits by (simp add: keep min_def)
        finally show ?thesis
          by (simp add: d1_take)
      qed
      have off2: "off + length chunk \<le> data_size data2"
        using fits len2 n2 by simp
      have post: "drain_post api data2 (off + length chunk) (fst lw @ [e1, e2]) r"
        using IH [OF rec refl off2 small2] by simp
      show ?thesis
      proof (cases r)
        case (Inl out)
        then show ?thesis by (simp add: drain_post_def)
      next
        case (Inr v)
        from post Inr obtain ext where
          l: "fst (snd (snd (snd v))) = (fst lw @ [e1, e2]) @ ext"
          and fd: "follows_drain (data_size data2) (off + length chunk)
                     (buffer_events ext @ [Buffer_resize (fst (snd (snd v))) True WP2_STATUS_OK])"
          and le: "fst (snd (snd v)) \<le> data_size (fst (snd v))"
          and tk: "take (fst (snd (snd v))) (bytes (fst (snd v))) =
                     take (off + length chunk) (bytes data2) @ written_bytes (buffer_events ext)"
          and sl: "\<forall>k. ProcessOutput_slack api k \<longrightarrow> list_all (slack_ok k) (buffer_events ext)"
          unfolding drain_post_def by auto
        have ev: "buffer_events ([e1, e2] @ ext) =
            Output_request (data_size data - off) status chunk #
            Buffer_resize n True WP2_STATUS_OK # buffer_events ext"
        proof -
          have ev2: "buffer_events [e2] = [Buffer_resize n True WP2_STATUS_OK]"
            using ok by (simp add: e2_def)
          have "[e1, e2] @ ext = [e1] @ [e2] @ ext"
            by simp
          then have "buffer_events ([e1, e2] @ ext) =
              buffer_events [e1] @ buffer_events [e2] @ buffer_events ext"
            by (simp only: buffer_events_append)
          then show ?thesis
            by (simp add: ev1 ev2)
        qed
        show ?thesis
          unfolding drain_post_def Inr sum.case
          apply (rule exI [of _ "[e1, e2] @ ext"])
          unfolding ev
          using l fd le tk sl True len2 slack1
          by (simp add: take2 n_def)
      qed
    qed
  qed
  qed
  qed
  then show ?thesis by simp
qed

lemma drain_trace_Inr:
  assumes "Data_Resize_contract api" and "ProcessOutput_contract api"
    and "EncodeJxl_drain (logged api) q data off (l, w) = Some (Inr (st, data', off', l', w'))"
    and "off \<le> data_size data" and "data_size data < 2 ^ 63"
  shows "\<exists>ext. l' = l @ ext \<and>
           follows_drain (data_size data) off
             (buffer_events ext @ [Buffer_resize off' True WP2_STATUS_OK]) \<and>
           off' \<le> data_size data' \<and>
           take off' (bytes data') = take off (bytes data) @ written_bytes (buffer_events ext) \<and>
           (\<forall>k. ProcessOutput_slack api k \<longrightarrow> list_all (slack_ok k) (buffer_events ext))"
  using drain_trace [OF assms(1,2,3)] assms(4,5) by (simp add: drain_post_def)


lemma drain_Inl_failure:
  assumes run: "EncodeJxl_drain api q data off w = Some (Inl out)"
  shows "fst out = Inl []"
proof -
  have "case Inl out :: ((Data, 'a) outcome + JxlEncoderStatus \<times> Data \<times> nat \<times> 'a) of
          Inl out \<Rightarrow> fst out = Inl [] | Inr u \<Rightarrow> True"
  proof (rule EncodeJxl_drain.raw_induct
    [where P = "\<lambda>a q data off w r. case r of Inl out \<Rightarrow> fst out = Inl []
                   | Inr u \<Rightarrow> True", OF _ run], goal_cases)
    case (1 drain a q data off w r)
    have IH: "drain a q d n x = Some y \<Longrightarrow>
        (case y of Inl out \<Rightarrow> fst out = Inl [] | Inr u \<Rightarrow> True)" for d n x y
      using 1(1) [of a q d n x y] by simp
    show ?case
      using 1(2) by (auto split: prod.splits if_splits simp: check_failed_def dest: IH)
  qed
  then show ?thesis by simp
qed

lemma follows_drain_sizes:
  "follows_drain sz off evs \<Longrightarrow> list_all (slack_ok k) evs \<Longrightarrow>
     \<forall>n \<in> set (buffer_sizes evs). n \<le> 2 * (off + length (written_bytes evs) + k)"
proof (induction sz off evs rule: follows_drain.induct)
  case (1 sz off avail_out st chunk n keep_bytes r rest)
  from "1.prems"(1) have avail: "avail_out = sz - off" and ok: "r = WP2_STATUS_OK"
    by simp_all
  show ?case
  proof (cases "st = JXL_ENC_NEED_MORE_OUTPUT")
    case True
    with "1.prems"(1) have n: "n = sz * 2 mod 2 ^ 64"
      and rest: "follows_drain n (off + length chunk) rest"
      by auto
    from "1.prems"(2) True avail have "sz - off \<le> length chunk + k"
      by (simp add: slack_ok_def)
    then have sz: "sz \<le> off + length chunk + k"
      by simp
    have "n \<le> sz * 2"
      unfolding n by (rule mod_less_eq_dividend)
    with sz have n_le: "n \<le> 2 * (off + length chunk + length (written_bytes rest) + k)"
      by simp
    from "1.prems"(2) have "list_all (slack_ok k) rest"
      by simp
    from "1.IH" [OF True rest this]
    have "\<forall>m \<in> set (buffer_sizes rest). m \<le> 2 * (off + length chunk + length (written_bytes rest) + k)"
      by (simp add: add.assoc)
    with n_le ok show ?thesis
      by (simp add: add.assoc)
  next
    case False
    with "1.prems"(1) have "n = off + length chunk" "rest = []"
      by simp_all
    with ok show ?thesis
      by simp
  qed
qed simp_all

subsection \<open>The log of an EncodeJxl run\<close>


lemma frame_success_core:
  assumes resize: "Data_Resize_contract api" and fits_avail: "ProcessOutput_contract api"
    and rs0: "fst (Data_Resize api \<lparr>bytes = []\<rparr> 64 False w8) = (WP2_STATUS_OK, data0)"
    and dr: "EncodeJxl_drain (logged api) q data0 0 (l4, w9) =
               Some (Inr (st, data1, off', l10, w10))"
    and rs1: "fst (Data_Resize api data1 off' True w10) = (WP2_STATUS_OK, data2)"
    and ev4: "buffer_events l4 = buffer_events l @ [Buffer_resize 64 False WP2_STATUS_OK]"
  shows "\<exists>evs. buffer_events l10 @ [Buffer_resize off' True WP2_STATUS_OK] =
           buffer_events l @ Buffer_resize 64 False WP2_STATUS_OK # evs \<and>
           drained api data2 evs"
proof -
  have size0: "data_size data0 = 64"
    using Data_Resize_contractD(1) [OF resize, of "\<lparr>bytes = []\<rparr>" 64 False w8] rs0
    by (simp add: data_size_def)
  from drain_trace_Inr [OF resize fits_avail dr] size0
  obtain ext where
    l10: "l10 = l4 @ ext"
    and fd: "follows_drain 64 0 (buffer_events ext @ [Buffer_resize off' True WP2_STATUS_OK])"
    and le: "off' \<le> data_size data1"
    and tk: "take off' (bytes data1) = written_bytes (buffer_events ext)"
    and sl: "\<forall>k. ProcessOutput_slack api k \<longrightarrow> list_all (slack_ok k) (buffer_events ext)"
    by auto
  have len2: "length (bytes data2) = off'"
    using Data_Resize_contractD(1) [OF resize, of data1 off' True w10] rs1 by simp
  have m: "min off' (length (bytes data1)) = off'"
    using le by (simp add: data_size_def)
  have "take off' (bytes data2) = take off' (bytes data1)"
    using Data_Resize_contractD(3) [OF resize, of data1 off' True w10] rs1
    unfolding m by simp
  then have b2: "bytes data2 = written_bytes (buffer_events ext)"
    using len2 tk by simp
  define evs where "evs = buffer_events ext @ [Buffer_resize off' True WP2_STATUS_OK]"
  have "buffer_events l10 @ [Buffer_resize off' True WP2_STATUS_OK] =
      buffer_events l @ Buffer_resize 64 False WP2_STATUS_OK # evs"
    unfolding l10 evs_def buffer_events_append ev4 by simp
  moreover have "drained api data2 evs"
    unfolding drained_def evs_def using fd b2 sl by simp
  ultimately show ?thesis
    by blast
qed

lemma EncodeJxl_frame_success:
  assumes resize: "Data_Resize_contract api" and fits_avail: "ProcessOutput_contract api"
    and run: "EncodeJxl_frame (logged api) input img q (l, w) = Some (Inr data2, diags, l', w')"
  shows "\<exists>evs. buffer_events l' = buffer_events l @ Buffer_resize 64 False WP2_STATUS_OK # evs \<and>
           drained api data2 evs"
  using run unfolding EncodeJxl_frame_def logged_encoder_calls logged_Data_Resize
  apply (clarsimp split: if_splits option.splits sum.splits prod.splits simp: check_failed_def)
   apply (drule drain_Inl_failure, simp)
  apply (rule frame_success_core [OF resize fits_avail], assumption, assumption, assumption)
  apply (simp add: buffer_events_Cons [of _ "_ # _"])
  done

lemma EncodeJxl_success:
  assumes resize: "Data_Resize_contract api" and fits_avail: "ProcessOutput_contract api"
    and run: "EncodeJxl (logged api) input img q ([], w) = Some (Inr data2, diags, l', w')"
  shows "\<exists>evs. buffer_events l' = Buffer_resize 64 False WP2_STATUS_OK # evs \<and>
           drained api data2 evs"
proof -
  from run obtain l5 w5 where
    fr: "EncodeJxl_frame (logged api) input img q (l5, w5) = Some (Inr data2, diags, l', w')"
    and l5: "length l5 = 5" "list_all (\<lambda>e. \<not> is_buffer_call (fst e)) l5"
    unfolding EncodeJxl_def logged_encoder_calls
    by (auto split: if_splits prod.splits simp: check_failed_def Let_def is_buffer_call_def)
  have "buffer_events l5 = []"
    using l5(2) by (induction l5) (simp_all add: buffer_events_skip)
  with EncodeJxl_frame_success [OF resize fits_avail fr] show ?thesis
    by simp
qed






subsection \<open>The log of a DecodeJxl run\<close>

lemma DecodeJxl_image_log:
  assumes run: "DecodeJxl_image (logged api) input q info (l, w) = (res, diags, trace, w')"
  shows "\<exists>buffer ext.
           trace = l @ ext
         \<and> map fst ext = take (length ext) (drop 7 (DecodeJxl_calls enc info buffer))
         \<and> length ext \<le> 6
         \<and> (1 < length ext \<longrightarrow> snd (ext ! 0) = Reply_buffer (WP2_STATUS_OK, buffer))
         \<and> (ArgbBuffer_Resize_contract api \<longrightarrow> 1 < length ext \<longrightarrow>
               width buffer = xsize info \<and> height buffer = ysize info \<and>
               format buffer = (if 0 < alpha_bits info then WP2_RGBA_32 else WP2_RGB_24))
         \<and> (\<forall>img d. res = Inr (img, d) \<longrightarrow>
               length ext = 6 \<and> img\<lparr>pixels := pixels buffer\<rparr> = buffer)"
proof -
  define rz where "rz = ArgbBuffer_Resize api
    (ArgbBuffer_of_format (if 0 < alpha_bits info then WP2_RGBA_32 else WP2_RGB_24))
    (xsize info) (ysize info) w"
  define buffer where "buffer = snd (fst rz)"
  have shape: "ArgbBuffer_Resize_contract api \<Longrightarrow> fst (fst rz) = WP2_STATUS_OK \<Longrightarrow>
      width buffer = xsize info \<and> height buffer = ysize info \<and>
      format buffer = (if 0 < alpha_bits info then WP2_RGBA_32 else WP2_RGB_24)"
    unfolding buffer_def rz_def
    by (simp add: ArgbBuffer_Resize_contractD ArgbBuffer_of_format_def)
  have "\<exists>ext. trace = l @ ext
         \<and> map fst ext = take (length ext) (drop 7 (DecodeJxl_calls enc info buffer))
         \<and> length ext \<le> 6
         \<and> (1 < length ext \<longrightarrow> snd (ext ! 0) = Reply_buffer (WP2_STATUS_OK, buffer)
               \<and> fst (fst rz) = WP2_STATUS_OK)
         \<and> (\<forall>img d. res = Inr (img, d) \<longrightarrow>
               length ext = 6 \<and> img\<lparr>pixels := pixels buffer\<rparr> = buffer)"
    using run
    unfolding DecodeJxl_image_def logged_decoder_calls Timer_new_def seconds_def
    by (auto split: prod.splits if_splits
        simp: check_failed_def DecodeJxl_calls_def ArgbBuffer_of_format_def
          rz_def buffer_def)
  with shape show ?thesis
    by blast
qed

lemma DecodeJxl_prefix:
  assumes run: "DecodeJxl (logged api) input enc q ([], w) = (res, diags, trace, w')"
  shows "\<exists>info.
           (length trace < 7 \<and> (\<exists>m. res = Inl m) \<and>
            (\<forall>buffer. map fst trace = take (length trace) (DecodeJxl_calls enc info buffer)))
         \<or> (\<exists>l7 w7. length l7 = 7 \<and> snd (l7 ! 5) = Reply_info (JXL_DEC_SUCCESS, info) \<and>
              (\<forall>buffer. map fst l7 = take 7 (DecodeJxl_calls enc info buffer)) \<and>
              ((\<exists>m. res = Inl m) \<and> trace = l7
               \<or> DecodeJxl_image (logged api) input q info (l7, w7) = (res, diags, trace, w')))"
proof -
  define p1 where "p1 = JxlDecoderProcessInput api (JxlDecoderCloseInput api
    (snd (JxlDecoderSetInput api (bytes enc) (length (bytes enc))
      (snd (JxlDecoderSubscribeEvents api 4160 (snd (JxlDecoderMake api w)))))))"
  define gi where "gi = JxlDecoderGetBasicInfo api (snd p1)"
  define p2 where "p2 = JxlDecoderProcessInput api (snd gi)"
  define l7 where "l7 =
    [(Call_JxlDecoderMake, Reply_handle True),
     (Call_JxlDecoderSubscribeEvents 4160, Reply_dec JXL_DEC_SUCCESS),
     (Call_JxlDecoderSetInput (bytes enc) (length (bytes enc)), Reply_dec JXL_DEC_SUCCESS),
     (Call_JxlDecoderCloseInput, Reply_none),
     (Call_JxlDecoderProcessInput, Reply_pixels (fst p1)),
     (Call_JxlDecoderGetBasicInfo, Reply_info (fst gi)),
     (Call_JxlDecoderProcessInput, Reply_pixels (fst p2))]"
  have "(length trace < 7 \<and> (\<exists>m. res = Inl m) \<and>
            (\<forall>buffer. map fst trace =
               take (length trace) (DecodeJxl_calls enc (snd (fst gi)) buffer)))
         \<or> (length l7 = 7 \<and> snd (l7 ! 5) = Reply_info (JXL_DEC_SUCCESS, snd (fst gi)) \<and>
              (\<forall>buffer. map fst l7 = take 7 (DecodeJxl_calls enc (snd (fst gi)) buffer)) \<and>
              ((\<exists>m. res = Inl m) \<and> trace = l7
               \<or> DecodeJxl_image (logged api) input q (snd (fst gi)) (l7, snd p2) =
                   (res, diags, trace, w')))"
    using run
    unfolding DecodeJxl_def logged_decoder_calls events_wanted JxlDecoderStatus_value.simps
    by (auto split: prod.splits if_splits
        simp: check_failed_def DecodeJxl_calls_def data_size_def l7_def p1_def gi_def p2_def)
  then show ?thesis
    by blast
qed

lemma DecodeJxl_log:
  assumes run: "DecodeJxl (logged api) input enc q ([], w) = (res, diags, trace, w')"
  shows "\<exists>info buffer.
           map fst trace = take (length trace) (DecodeJxl_calls enc info buffer)
         \<and> length trace \<le> 13
         \<and> (6 < length trace \<longrightarrow> snd (trace ! 5) = Reply_info (JXL_DEC_SUCCESS, info))
         \<and> (8 < length trace \<longrightarrow> snd (trace ! 7) = Reply_buffer (WP2_STATUS_OK, buffer))
         \<and> (ArgbBuffer_Resize_contract api \<longrightarrow> 8 < length trace \<longrightarrow>
               width buffer = xsize info \<and> height buffer = ysize info \<and>
               format buffer = (if 0 < alpha_bits info then WP2_RGBA_32 else WP2_RGB_24))
         \<and> (\<forall>img d. res = Inr (img, d) \<longrightarrow>
               length trace = 13 \<and> img\<lparr>pixels := pixels buffer\<rparr> = buffer)"
proof -
  from DecodeJxl_prefix [OF run] obtain info where
    cases: "(length trace < 7 \<and> (\<exists>m. res = Inl m) \<and>
            (\<forall>buffer. map fst trace = take (length trace) (DecodeJxl_calls enc info buffer)))
         \<or> (\<exists>l7 w7. length l7 = 7 \<and> snd (l7 ! 5) = Reply_info (JXL_DEC_SUCCESS, info) \<and>
              (\<forall>buffer. map fst l7 = take 7 (DecodeJxl_calls enc info buffer)) \<and>
              ((\<exists>m. res = Inl m) \<and> trace = l7
               \<or> DecodeJxl_image (logged api) input q info (l7, w7) = (res, diags, trace, w')))"
    by blast
  from cases show ?thesis
  proof (elim disjE conjE exE)
    fix m
    assume "length trace < 7" "res = Inl m"
      "\<forall>buffer. map fst trace = take (length trace) (DecodeJxl_calls enc info buffer)"
    then show ?thesis
      by (intro exI [of _ info] exI [of _ undefined]) simp
  next
    fix l7 :: call_log and w7 :: 'a and m
    assume "length l7 = 7" "snd (l7 ! 5) = Reply_info (JXL_DEC_SUCCESS, info)"
      "\<forall>buffer. map fst l7 = take 7 (DecodeJxl_calls enc info buffer)"
      "res = Inl m" "trace = l7"
    then show ?thesis
      by (intro exI [of _ info] exI [of _ undefined]) simp
  next
    fix l7 :: call_log and w7 :: 'a
    assume l7: "length l7 = 7" "snd (l7 ! 5) = Reply_info (JXL_DEC_SUCCESS, info)"
      "\<forall>buffer. map fst l7 = take 7 (DecodeJxl_calls enc info buffer)"
      and im: "DecodeJxl_image (logged api) input q info (l7, w7) = (res, diags, trace, w')"
    from DecodeJxl_image_log [OF im, of enc] obtain buffer ext where
      ext: "trace = l7 @ ext"
        "map fst ext = take (length ext) (drop 7 (DecodeJxl_calls enc info buffer))"
        "length ext \<le> 6"
        "1 < length ext \<longrightarrow> snd (ext ! 0) = Reply_buffer (WP2_STATUS_OK, buffer)"
        "ArgbBuffer_Resize_contract api \<longrightarrow> 1 < length ext \<longrightarrow>
               width buffer = xsize info \<and> height buffer = ysize info \<and>
               format buffer = (if 0 < alpha_bits info then WP2_RGBA_32 else WP2_RGB_24)"
        "\<forall>img d. res = Inr (img, d) \<longrightarrow>
               length ext = 6 \<and> img\<lparr>pixels := pixels buffer\<rparr> = buffer"
      by blast
    have calls: "map fst trace = take (length trace) (DecodeJxl_calls enc info buffer)"
    proof -
      have "map fst trace = take 7 (DecodeJxl_calls enc info buffer) @
              take (length ext) (drop 7 (DecodeJxl_calls enc info buffer))"
        using ext(1,2) l7(3) by simp
      also have "\<dots> = take (7 + length ext) (DecodeJxl_calls enc info buffer)"
        by (simp add: take_add)
      finally show ?thesis
        using ext(1) l7(1) by simp
    qed
    show ?thesis
      apply (intro exI [of _ info] exI [of _ buffer])
      using calls ext l7(1,2)
      by (auto simp: nth_append)
  qed
qed

subsection \<open>The size of an image buffer\<close>






subsection \<open>EncodeJxl returns\<close>

text \<open>With a \<open>Data::Resize\<close> that keeps its contract the loop ends: the buffer starts at 64
  bytes, each further round follows a successful resize to twice the size, and no resize
  succeeds from \<open>2 ^ 63\<close> bytes on.  So \<open>EncodeJxl\<close> returns on every input, with or without
  the log.\<close>

lemma EncodeJxl_drain_returns:
  assumes contract: "Data_Resize_contract api"
    and size: "0 < data_size data" "data_size data < 2 ^ 63"
  shows "\<exists>r. EncodeJxl_drain api q data off w = Some r"
  using size
proof (induction "(2::nat) ^ 63 - data_size data" arbitrary: data off w rule: less_induct)
  case less
  obtain st chunk w1 where
    po: "JxlEncoderProcessOutput api (data_size data - off) w = ((st, chunk), w1)"
    by (cases "JxlEncoderProcessOutput api (data_size data - off) w") auto
  show ?case
  proof (cases "st = JXL_ENC_NEED_MORE_OUTPUT")
    case False
    then show ?thesis
      by (subst EncodeJxl_drain.simps) (simp add: po)
  next
    case True
    define d1 where "d1 = data\<lparr>bytes := write_at (bytes data) off chunk\<rparr>"
    obtain r d2 w2 where
      rs: "Data_Resize api d1 (data_size data * 2 mod 2 ^ 64) True w1 = ((r, d2), w2)"
      by (cases "Data_Resize api d1 (data_size data * 2 mod 2 ^ 64) True w1") auto
    show ?thesis
    proof (cases "r = WP2_STATUS_OK")
      case False
      with True po rs show ?thesis
        unfolding d1_def by (subst EncodeJxl_drain.simps) simp
    next
      case ok: True
      have twice: "data_size data * 2 mod 2 ^ 64 = data_size data * 2"
        using less.prems(2) by simp
      note rs2 = rs [unfolded twice]
      have "fst (fst (Data_Resize api d1 (data_size data * 2) True w1)) = WP2_STATUS_OK"
        using rs2 ok by simp
      from Data_Resize_contractD(1,2) [OF contract this] rs2
      have d2: "data_size d2 = data_size data * 2" "data_size data * 2 < 2 ^ 63"
        by (simp_all add: data_size_def)
      have "\<exists>r. EncodeJxl_drain api q d2 (off + length chunk) w2 = Some r"
        by (rule less.hyps) (use d2 less.prems in simp_all)
      with True ok po rs show ?thesis
        unfolding d1_def by (subst EncodeJxl_drain.simps) simp
    qed
  qed
qed

lemma EncodeJxl_frame_returns:
  assumes contract: "Data_Resize_contract api"
  shows "\<exists>out. EncodeJxl_frame api input img q w = Some out"
proof -
  obtain s1 w6 where c1: "JxlEncoderFrameSettingsSetOption api JXL_ENC_FRAME_SETTING_EFFORT
      (effort (codec_settings input)) w = (s1, w6)"
    by (cases "JxlEncoderFrameSettingsSetOption api JXL_ENC_FRAME_SETTING_EFFORT
      (effort (codec_settings input)) w")
  obtain s2 w7 where c2: "JxlEncoderAddImageFrame api (ArgbBufferToJxlPixelFormat img)
      (pixels img) (ArgbBufferSize img) w6 = (s2, w7)"
    by (cases "JxlEncoderAddImageFrame api (ArgbBufferToJxlPixelFormat img)
      (pixels img) (ArgbBufferSize img) w6")
  obtain s3 d w9 where c3: "Data_Resize api \<lparr>bytes = []\<rparr> 64 False
      (JxlEncoderCloseInput api w7) = ((s3, d), w9)"
    by (cases "Data_Resize api \<lparr>bytes = []\<rparr> 64 False (JxlEncoderCloseInput api w7)") auto
  show ?thesis
  proof (cases "s1 = JXL_ENC_SUCCESS \<and> s2 = JXL_ENC_SUCCESS \<and> s3 = WP2_STATUS_OK")
    case False
    then show ?thesis
      by (auto simp: EncodeJxl_frame_def c1 c2 c3 simp del: split_paired_Ex)
  next
    case True
    from Data_Resize_contractD(1) [OF contract, of "\<lparr>bytes = []\<rparr>" 64 False
        "JxlEncoderCloseInput api w7"] c3 True
    have "data_size d = 64"
      by (simp add: data_size_def)
    then have "\<exists>r. EncodeJxl_drain api q d 0 w9 = Some r"
      by (intro EncodeJxl_drain_returns [OF contract]) simp_all
    then obtain r where r: "EncodeJxl_drain api q d 0 w9 = Some r"
      by blast
    show ?thesis
    proof (cases r)
      case (Inl returned)
      with True r show ?thesis
        by (simp add: EncodeJxl_frame_def c1 c2 c3 del: split_paired_Ex)
    next
      case (Inr v)
      obtain st d1 off w10 where v: "v = (st, d1, off, w10)"
        by (cases v)
      obtain s4 d2 w11 where c4: "Data_Resize api d1 off True w10 = ((s4, d2), w11)"
        by (cases "Data_Resize api d1 off True w10") auto
      from True r Inr v show ?thesis
        by (simp add: EncodeJxl_frame_def c1 c2 c3 c4 del: split_paired_Ex)
    qed
  qed
qed

lemma EncodeJxl_returns:
  assumes contract: "Data_Resize_contract api"
  shows "\<exists>out. EncodeJxl api input img q w = Some out"
  unfolding EncodeJxl_def
  by (simp add: Let_def EncodeJxl_frame_returns [OF contract] split: prod.splits
      del: split_paired_Ex)

lemma EncodeJxl_logged_returns:
  assumes contract: "Data_Resize_contract api"
  shows "\<exists>out. EncodeJxl (logged api) input img q lw = Some out"
proof -
  from EncodeJxl_returns [OF contract] obtain out where
    "EncodeJxl api input img q (snd lw) = Some out"
    by blast
  then have "map_option erase_log (EncodeJxl (logged api) input img q lw) = Some out"
    by (simp only: EncodeJxl_logged)
  then show ?thesis
    by (cases "EncodeJxl (logged api) input img q lw") (simp_all del: split_paired_Ex)
qed

section \<open>The output buffer of EncodeJxl\<close>

text \<open>
  C1, as the claim states it, fails: the buffer starts at 64 bytes whatever the size of
  the output.  An encoder that writes 12 bytes and reports success leaves the buffer
  sizes 64 and then 12, and 64 exceeds twice the final size.
\<close>

theorem EncodeJxl_buffer_exceeds_twice_final_size:
  "map_option (\<lambda>out. (fst out, buffer_sizes (buffer_events (fst (snd (snd out))))))
     (EncodeJxl (logged toy) (toy_task 100 7) (toy_image WP2_RGB_24 2 2) False
        ([], toy_start [] (toy_info 0 0 0))) =
     Some (Inr \<lparr>bytes = replicate 12 7\<rparr>, [64, 12])
   \<and> \<not> (64 :: nat) \<le> 2 * length (replicate 12 (7 :: byte))"
  by (simp add: EncodeJxl_def EncodeJxl_frame_def toy_simps buffer_events_def
      buffer_event_of_def)

text \<open>
  C1, amended.  In a successful \<open>EncodeJxl\<close> (with a \<open>Data::Resize\<close> and a
  \<open>JxlEncoderProcessOutput\<close> that keep their contracts) the buffer events are: a first
  allocation of 64 bytes, then the drain as the spec words it (\<open>follows_drain\<close>: every
  request offers the space behind the last byte written, each report of
  need-more-output is followed by a resize to twice the size that keeps the bytes, and
  the first other report by a resize to the number of bytes written).  The returned
  buffer holds exactly the bytes the encoder wrote, so its length is the number of bytes
  the encoder reported writing.  No buffer length exceeds the larger of 64 and
  \<open>2 * (final size + k)\<close>, where \<open>k\<close> bounds the space the encoder leaves unused when it
  asks for more (\<open>k = 0\<close>: it asks only with the buffer full).
\<close>

theorem EncodeJxl_drain_protocol:
  assumes "Data_Resize_contract api" and "ProcessOutput_contract api"
    and "EncodeJxl (logged api) input original_image quiet ([], w) = Some (Inr data, diags, trace, w')"
  shows "\<exists>evs. buffer_events trace = Buffer_resize 64 False WP2_STATUS_OK # evs
           \<and> follows_drain 64 0 evs
           \<and> bytes data = written_bytes (buffer_events trace)
           \<and> length (bytes data) = length (written_bytes (buffer_events trace))
           \<and> (\<forall>k. ProcessOutput_slack api k \<longrightarrow>
                 (\<forall>n \<in> set (buffer_sizes (buffer_events trace)).
                    n \<le> max 64 (2 * (length (bytes data) + k))))"
proof -
  from EncodeJxl_success [OF assms] obtain evs where
    ev: "buffer_events trace = Buffer_resize 64 False WP2_STATUS_OK # evs"
    and dr: "drained api data evs"
    by blast
  from dr have fd: "follows_drain 64 0 evs" and b: "bytes data = written_bytes evs"
    and sl: "\<forall>k. ProcessOutput_slack api k \<longrightarrow> list_all (slack_ok k) evs"
    by (simp_all add: drained_def)
  have bound: "\<forall>n \<in> set (buffer_sizes (buffer_events trace)).
      n \<le> max 64 (2 * (length (bytes data) + k))" if "ProcessOutput_slack api k" for k
  proof -
    from sl that have "list_all (slack_ok k) evs"
      by simp
    from follows_drain_sizes [OF fd this]
    have "\<forall>n \<in> set (buffer_sizes evs). n \<le> 2 * (length (bytes data) + k)"
      by (simp add: b)
    then show ?thesis
      unfolding ev by auto
  qed
  show ?thesis
    apply (rule exI [of _ evs])
    using ev fd b bound by simp
qed

theorem EncodeJxl_drain_protocol_witness:
  "Data_Resize_contract toy \<and> ProcessOutput_contract toy \<and> ProcessOutput_slack toy 0
   \<and> (\<exists>data diags trace w'.
         EncodeJxl (logged toy) (toy_task 100 7) (toy_image WP2_RGB_24 5 5) False
           ([], toy_start [] (toy_info 0 0 0)) = Some (Inr data, diags, trace, w')
       \<and> buffer_sizes (buffer_events trace) = [64, 128, 75]
       \<and> follows_drain 64 0 (tl (buffer_events trace))
       \<and> bytes data = written_bytes (buffer_events trace)
       \<and> length (bytes data) = 75)"
proof -
  obtain data diags trace w' where
    run: "EncodeJxl (logged toy) (toy_task 100 7) (toy_image WP2_RGB_24 5 5) False
           ([], toy_start [] (toy_info 0 0 0)) = Some (Inr data, diags, trace, w')"
    and sizes: "buffer_sizes (buffer_events trace) = [64, 128, 75]"
    and len: "length (bytes data) = 75"
    by (simp add: EncodeJxl_def EncodeJxl_frame_def toy_simps buffer_events_def
        buffer_event_of_def)
  from EncodeJxl_drain_protocol
    [OF toy_Data_Resize_contract toy_ProcessOutput_contract run]
  obtain evs where "buffer_events trace = Buffer_resize 64 False WP2_STATUS_OK # evs"
    "follows_drain 64 0 evs" "bytes data = written_bytes (buffer_events trace)"
    by blast
  then have "follows_drain 64 0 (tl (buffer_events trace))"
    "bytes data = written_bytes (buffer_events trace)"
    by simp_all
  with run sizes len toy_Data_Resize_contract toy_ProcessOutput_contract
    toy_ProcessOutput_slack
  show ?thesis
    by blast
qed

section \<open>Quality and effort\<close>



section \<open>The decoded image\<close>

text \<open>
  C9.  In a successful \<open>DecodeJxl\<close> (with an \<open>ArgbBuffer::Resize\<close> that keeps its
  contract) the native calls are exactly \<open>DecodeJxl_calls\<close>, in that order: the image
  returned is the buffer allocated by the eighth call from the basic info that the
  sixth call reported (its width and height are the reported ones; its format is RGBA
  32-bit exactly when the reported alpha bit count is positive, and RGB 24-bit
  otherwise), with only its pixels changed by the decoder; that buffer's storage and
  size are bound as the output target by the ninth call, before the tenth call asks for
  the image data.
\<close>

theorem DecodeJxl_image_from_basic_info:
  assumes contract: "ArgbBuffer_Resize_contract api"
    and run: "DecodeJxl (logged api) input encoded_image quiet ([], w) =
                (Inr (img, duration), diags, trace, w')"
  shows "\<exists>info buffer.
           map fst trace = DecodeJxl_calls encoded_image info buffer
         \<and> snd (trace ! 5) = Reply_info (JXL_DEC_SUCCESS, info)
         \<and> snd (trace ! 7) = Reply_buffer (WP2_STATUS_OK, buffer)
         \<and> width img = xsize info \<and> height img = ysize info
         \<and> format img = (if 0 < alpha_bits info then WP2_RGBA_32 else WP2_RGB_24)
         \<and> (format img = WP2_RGBA_32) = (0 < alpha_bits info)
         \<and> img\<lparr>pixels := pixels buffer\<rparr> = buffer
         \<and> fst (trace ! 7) = Call_ArgbBuffer_Resize (format img) (xsize info) (ysize info)
         \<and> fst (trace ! 8) =
             Call_JxlDecoderSetImageOutBuffer (ArgbBufferToJxlPixelFormat buffer)
               (pixels buffer) (ArgbBufferSize buffer)
         \<and> fst (trace ! 9) = Call_JxlDecoderProcessInput"
proof -
  from DecodeJxl_log [OF run] obtain info buffer where
    calls: "map fst trace = take (length trace) (DecodeJxl_calls encoded_image info buffer)"
    and r5: "6 < length trace \<longrightarrow> snd (trace ! 5) = Reply_info (JXL_DEC_SUCCESS, info)"
    and r7: "8 < length trace \<longrightarrow> snd (trace ! 7) = Reply_buffer (WP2_STATUS_OK, buffer)"
    and shape: "ArgbBuffer_Resize_contract api \<longrightarrow> 8 < length trace \<longrightarrow>
               width buffer = xsize info \<and> height buffer = ysize info \<and>
               format buffer = (if 0 < alpha_bits info then WP2_RGBA_32 else WP2_RGB_24)"
    and ok: "\<forall>i d. Inr (img, duration) = (Inr (i, d) :: (ArgbBuffer \<times> real) StatusOr) \<longrightarrow>
               length trace = 13 \<and> i\<lparr>pixels := pixels buffer\<rparr> = buffer"
    by blast
  from ok have len: "length trace = 13" and same: "img\<lparr>pixels := pixels buffer\<rparr> = buffer"
    by simp_all
  have all: "map fst trace = DecodeJxl_calls encoded_image info buffer"
    using calls len by (simp add: DecodeJxl_calls_def)
  from shape contract len have dims: "width buffer = xsize info" "height buffer = ysize info"
    and fmt: "format buffer = (if 0 < alpha_bits info then WP2_RGBA_32 else WP2_RGB_24)"
    by simp_all
  have img_dims: "width img = width buffer" "height img = height buffer"
    "format img = format buffer"
    using same by (metis ArgbBuffer.select_convs ArgbBuffer.surjective ArgbBuffer.update_convs)+
  have nth: "fst (trace ! i) = DecodeJxl_calls encoded_image info buffer ! i" if "i < 13" for i
    using all that len by (metis nth_map)
  have c7: "fst (trace ! 7) = Call_ArgbBuffer_Resize (format img) (xsize info) (ysize info)"
    using nth [of 7] img_dims fmt by (simp add: DecodeJxl_calls_def)
  have c8: "fst (trace ! 8) =
             Call_JxlDecoderSetImageOutBuffer (ArgbBufferToJxlPixelFormat buffer)
               (pixels buffer) (ArgbBufferSize buffer)"
    using nth [of 8] by (simp add: DecodeJxl_calls_def)
  have c9: "fst (trace ! 9) = Call_JxlDecoderProcessInput"
    using nth [of 9] by (simp add: DecodeJxl_calls_def)
  have rgba: "(format img = WP2_RGBA_32) = (0 < alpha_bits info)"
    using img_dims fmt by simp
  show ?thesis
    apply (intro exI [of _ info] exI [of _ buffer])
    using all r5 r7 len dims fmt img_dims same c7 c8 c9 rgba
    by simp
qed

theorem DecodeJxl_image_from_basic_info_witness:
  "ArgbBuffer_Resize_contract toy
   \<and> (\<exists>img duration diags trace w' info buffer.
         DecodeJxl (logged toy) (toy_task 100 7) \<lparr>bytes = replicate 16 7\<rparr> False
           ([], toy_start [JXL_DEC_BASIC_INFO, JXL_DEC_NEED_IMAGE_OUT_BUFFER,
                           JXL_DEC_FULL_IMAGE, JXL_DEC_SUCCESS] (toy_info 2 2 8)) =
           (Inr (img, duration), diags, trace, w')
       \<and> snd (trace ! 5) = Reply_info (JXL_DEC_SUCCESS, info)
       \<and> info = toy_info 2 2 8
       \<and> width img = 2 \<and> height img = 2 \<and> format img = WP2_RGBA_32
       \<and> img\<lparr>pixels := pixels buffer\<rparr> = buffer
       \<and> fst (trace ! 8) =
           Call_JxlDecoderSetImageOutBuffer (ArgbBufferToJxlPixelFormat buffer)
             (pixels buffer) (ArgbBufferSize buffer))"
proof -
  obtain img duration diags trace w' where
    run: "DecodeJxl (logged toy) (toy_task 100 7) \<lparr>bytes = replicate 16 7\<rparr> False
           ([], toy_start [JXL_DEC_BASIC_INFO, JXL_DEC_NEED_IMAGE_OUT_BUFFER,
                           JXL_DEC_FULL_IMAGE, JXL_DEC_SUCCESS] (toy_info 2 2 8)) =
           (Inr (img, duration), diags, trace, w')"
    and r5: "snd (trace ! 5) = Reply_info (JXL_DEC_SUCCESS, toy_info 2 2 8)"
    by (simp add: DecodeJxl_def DecodeJxl_image_def toy_simps)
  from DecodeJxl_image_from_basic_info [OF toy_ArgbBuffer_Resize_contract run]
  obtain info buffer where
    f: "snd (trace ! 5) = Reply_info (JXL_DEC_SUCCESS, info)"
      "width img = xsize info" "height img = ysize info"
      "format img = (if 0 < alpha_bits info then WP2_RGBA_32 else WP2_RGB_24)"
      "img\<lparr>pixels := pixels buffer\<rparr> = buffer"
      "fst (trace ! 8) =
           Call_JxlDecoderSetImageOutBuffer (ArgbBufferToJxlPixelFormat buffer)
             (pixels buffer) (ArgbBufferSize buffer)"
    by blast
  from f(1) r5 have info: "info = toy_info 2 2 8"
    by simp
  have "width img = 2" "height img = 2" "format img = WP2_RGBA_32"
    using f(2,3,4) unfolding info by (simp_all add: toy_info_def)
  with run f info toy_ArgbBuffer_Resize_contract show ?thesis
    by blast
qed

section \<open>The timer and the duration that DecodeJxl reports\<close>

lemma clock_readings_simps [simp]:
  "clock_readings [] = []"
  "clock_readings (xs @ ys) = clock_readings xs @ clock_readings ys"
  "clock_readings ((c, Reply_time t) # xs) = t # clock_readings xs"
  "clock_readings ((c, Reply_none) # xs) = clock_readings xs"
  "clock_readings ((c, Reply_handle b) # xs) = clock_readings xs"
  "clock_readings ((c, Reply_enc e) # xs) = clock_readings xs"
  "clock_readings ((c, Reply_output ou) # xs) = clock_readings xs"
  "clock_readings ((c, Reply_dec d) # xs) = clock_readings xs"
  "clock_readings ((c, Reply_pixels p) # xs) = clock_readings xs"
  "clock_readings ((c, Reply_info i) # xs) = clock_readings xs"
  "clock_readings ((c, Reply_wp2 s) # xs) = clock_readings xs"
  "clock_readings ((c, Reply_buffer bu) # xs) = clock_readings xs"
  by (simp_all add: clock_readings_def)








section \<open>The byte count passed to the libraries\<close>




end
